theory Spec2Isabelle
  imports Main "HOL-Library.Word" "HOL-Library.Multiset"
begin

unbundle bit_operations_syntax

section \<open>The KMS/DRM video output: data\<close>

text \<open>
  The development embeds \<^verbatim>\<open>modules/video_output/drm_display.c\<close>. The C integers
  \<^verbatim>\<open>uint32_t\<close> and \<^verbatim>\<open>vlc_fourcc_t\<close> are 32-bit words, a pointer into a
  mapping is a 64-bit word. The file-scope table \<^verbatim>\<open>fourccmatching\<close> and the
  structure \<^verbatim>\<open>vd->sys\<close> are mutated in place by the C code; here every
  function takes them and returns them updated. What the kernel and the VLC core
  answer (plane lists, ioctl results, configuration strings) is input to the model.
\<close>

type_synonym u32 = "32 word"
type_synonym addr = "64 word"

text \<open>\<^verbatim>\<open>typedef enum { drvSuccess, drvTryNext, drvFail } deviceRval;\<close>\<close>

datatype deviceRval = drvSuccess | drvTryNext | drvFail

text \<open>\<^verbatim>\<open>#define MAXHWBUF 3\<close>\<close>

definition MAXHWBUF :: nat where
  "MAXHWBUF = 3"

text \<open>
  \<^verbatim>\<open>PICTURE_PLANE_MAX\<close> is declared in \<^verbatim>\<open>vlc_picture.h\<close>, which is not part of
  the file; the header gives 5.
\<close>

definition PICTURE_PLANE_MAX :: nat where
  "PICTURE_PLANE_MAX = 5"

text \<open>One plane of \<^verbatim>\<open>picture_t\<close>: the fields Open and Display assign.\<close>

record plane_t =
  p_pixels :: addr
  i_lines :: u32
  i_pitch :: u32

type_synonym picture_t = "plane_t list"

text \<open>
  \<^verbatim>\<open>vout_display_sys_t\<close>. The arrays are lists (\<^verbatim>\<open>offsets\<close> of length
  \<^verbatim>\<open>PICTURE_PLANE_MAX\<close>, the three per-buffer arrays of length \<^verbatim>\<open>MAXHWBUF\<close>);
  \<^verbatim>\<open>picture\<close> is \<open>None\<close> for the null pointer.
\<close>

record sys =
  sys_width :: u32
  sys_height :: u32
  sys_stride :: u32
  sys_size :: u32
  sys_offsets :: "u32 list"
  sys_handle :: "u32 list"
  sys_map :: "addr list"
  sys_fb :: "u32 list"
  sys_picture :: "picture_t option"
  sys_front_buf :: u32
  sys_forced_drm_fourcc :: bool
  sys_drm_fourcc :: u32
  sys_vlc_fourcc :: u32
  sys_plane_id :: u32

text \<open>\<^verbatim>\<open>vlc_obj_calloc(VLC_OBJECT(vd), 1, sizeof(*sys))\<close>: every field zero.\<close>

definition calloc_sys :: sys where
  "calloc_sys = \<lparr> sys_width = 0, sys_height = 0, sys_stride = 0, sys_size = 0,
     sys_offsets = replicate PICTURE_PLANE_MAX 0,
     sys_handle = replicate MAXHWBUF 0,
     sys_map = replicate MAXHWBUF 0,
     sys_fb = replicate MAXHWBUF 0,
     sys_picture = None,
     sys_front_buf = 0,
     sys_forced_drm_fourcc = False,
     sys_drm_fourcc = 0,
     sys_vlc_fourcc = 0,
     sys_plane_id = 0 \<rparr>"

section \<open>The format table\<close>

text \<open>One element of \<^verbatim>\<open>fourccmatching[]\<close>.\<close>

record entry =
  drm :: u32
  vlc :: u32
  plane_id :: u32
  present :: bool
  isYUV :: bool

text \<open>
  The four-character codes. \<^verbatim>\<open>fourcc_code\<close> of \<^verbatim>\<open>drm_fourcc.h\<close> and
  \<^verbatim>\<open>VLC_FOURCC\<close> of \<^verbatim>\<open>vlc_fourcc.h\<close> (little-endian hosts) both put the first
  character in the low byte. Neither header is part of the file; the codes are
  the ones the two headers give to the names the table uses.
\<close>

definition fourcc_code :: "char \<Rightarrow> char \<Rightarrow> char \<Rightarrow> char \<Rightarrow> u32" where
  "fourcc_code a b c d =
     of_char a OR push_bit 8 (of_char b) OR push_bit 16 (of_char c) OR push_bit 24 (of_char d)"

definition DRM_FORMAT_XRGB8888 :: u32 where
  "DRM_FORMAT_XRGB8888 = fourcc_code (CHR ''X'') (CHR ''R'') (CHR ''2'') (CHR ''4'')"
definition DRM_FORMAT_RGB565 :: u32 where
  "DRM_FORMAT_RGB565 = fourcc_code (CHR ''R'') (CHR ''G'') (CHR ''1'') (CHR ''6'')"
definition DRM_FORMAT_P010 :: u32 where
  "DRM_FORMAT_P010 = fourcc_code (CHR ''P'') (CHR ''0'') (CHR ''1'') (CHR ''0'')"
definition DRM_FORMAT_P012 :: u32 where
  "DRM_FORMAT_P012 = fourcc_code (CHR ''P'') (CHR ''0'') (CHR ''1'') (CHR ''2'')"
definition DRM_FORMAT_P016 :: u32 where
  "DRM_FORMAT_P016 = fourcc_code (CHR ''P'') (CHR ''0'') (CHR ''1'') (CHR ''6'')"
definition DRM_FORMAT_NV12 :: u32 where
  "DRM_FORMAT_NV12 = fourcc_code (CHR ''N'') (CHR ''V'') (CHR ''1'') (CHR ''2'')"
definition DRM_FORMAT_YUYV :: u32 where
  "DRM_FORMAT_YUYV = fourcc_code (CHR ''Y'') (CHR ''U'') (CHR ''Y'') (CHR ''V'')"
definition DRM_FORMAT_YVYU :: u32 where
  "DRM_FORMAT_YVYU = fourcc_code (CHR ''Y'') (CHR ''V'') (CHR ''Y'') (CHR ''U'')"
definition DRM_FORMAT_UYVY :: u32 where
  "DRM_FORMAT_UYVY = fourcc_code (CHR ''U'') (CHR ''Y'') (CHR ''V'') (CHR ''Y'')"
definition DRM_FORMAT_VYUY :: u32 where
  "DRM_FORMAT_VYUY = fourcc_code (CHR ''V'') (CHR ''Y'') (CHR ''U'') (CHR ''Y'')"

definition VLC_CODEC_RGB32 :: u32 where
  "VLC_CODEC_RGB32 = fourcc_code (CHR ''R'') (CHR ''V'') (CHR ''3'') (CHR ''2'')"
definition VLC_CODEC_RGB16 :: u32 where
  "VLC_CODEC_RGB16 = fourcc_code (CHR ''R'') (CHR ''V'') (CHR ''1'') (CHR ''6'')"
definition VLC_CODEC_P010 :: u32 where
  "VLC_CODEC_P010 = fourcc_code (CHR ''P'') (CHR ''0'') (CHR ''1'') (CHR ''0'')"
definition VLC_CODEC_NV12 :: u32 where
  "VLC_CODEC_NV12 = fourcc_code (CHR ''N'') (CHR ''V'') (CHR ''1'') (CHR ''2'')"
definition VLC_CODEC_YUYV :: u32 where
  "VLC_CODEC_YUYV = fourcc_code (CHR ''Y'') (CHR ''U'') (CHR ''Y'') (CHR ''2'')"
definition VLC_CODEC_YVYU :: u32 where
  "VLC_CODEC_YVYU = fourcc_code (CHR ''Y'') (CHR ''V'') (CHR ''Y'') (CHR ''U'')"
definition VLC_CODEC_UYVY :: u32 where
  "VLC_CODEC_UYVY = fourcc_code (CHR ''U'') (CHR ''Y'') (CHR ''V'') (CHR ''Y'')"
definition VLC_CODEC_VYUY :: u32 where
  "VLC_CODEC_VYUY = fourcc_code (CHR ''V'') (CHR ''Y'') (CHR ''U'') (CHR ''Y'')"
definition VLC_CODEC_I420 :: u32 where
  "VLC_CODEC_I420 = fourcc_code (CHR ''I'') (CHR ''4'') (CHR ''2'') (CHR ''0'')"

text \<open>
  The initializer of \<^verbatim>\<open>fourccmatching[]\<close>, with \<^verbatim>\<open>DRM_FORMAT_P010\<close> defined;
  \<^verbatim>\<open>plane_id\<close> and \<^verbatim>\<open>present\<close> are not named by the initializer and start
  at zero.
\<close>

definition mk_entry :: "u32 \<Rightarrow> u32 \<Rightarrow> bool \<Rightarrow> entry" where
  "mk_entry d v y = \<lparr> drm = d, vlc = v, plane_id = 0, present = False, isYUV = y \<rparr>"

definition fourccmatching :: "entry list" where
  "fourccmatching =
    [ mk_entry DRM_FORMAT_XRGB8888 VLC_CODEC_RGB32 False,
      mk_entry DRM_FORMAT_RGB565 VLC_CODEC_RGB16 False,
      mk_entry DRM_FORMAT_P010 VLC_CODEC_P010 True,
      mk_entry DRM_FORMAT_NV12 VLC_CODEC_NV12 True,
      mk_entry DRM_FORMAT_YUYV VLC_CODEC_YUYV True,
      mk_entry DRM_FORMAT_YVYU VLC_CODEC_YVYU True,
      mk_entry DRM_FORMAT_UYVY VLC_CODEC_UYVY True,
      mk_entry DRM_FORMAT_VYUY VLC_CODEC_VYUY True ]"

text \<open>
  Every loop over the table has the shape
  \<^verbatim>\<open>for (...; c < ARRAY_SIZE(fourccmatching); c++) if (cond) { ...; break or return; }\<close>.
  \<open>for_c cond tbl c\<close> is the value of the loop variable when such a loop, entered
  with the variable at \<open>c\<close>, is left: the first index from \<open>c\<close> on where the
  condition holds, or a value outside the table when there is none.
\<close>

function for_c :: "(entry \<Rightarrow> bool) \<Rightarrow> entry list \<Rightarrow> nat \<Rightarrow> nat" where
  "for_c cond tbl c =
     (if c < length tbl then (if cond (tbl ! c) then c else for_c cond tbl (Suc c)) else c)"
  by pat_completeness auto
termination
  by (relation "measure (\<lambda>(cond, tbl, c). length tbl - c)") auto

text \<open>
  \<^verbatim>\<open>CheckFourCCList(drmfourcc, plane_id)\<close>: at the first element with this DRM
  code, leave the loop at once when it is already present, otherwise mark it and
  record the plane.
\<close>

definition CheckFourCCList :: "u32 \<Rightarrow> u32 \<Rightarrow> entry list \<Rightarrow> entry list" where
  "CheckFourCCList drmfourcc pid tbl =
     (let i = for_c (\<lambda>e. drm e = drmfourcc) tbl 0 in
      if i < length tbl then
        (if present (tbl ! i) then tbl
         else tbl[i := (tbl ! i)\<lparr> present := True, plane_id := pid \<rparr>])
      else tbl)"

section \<open>Negotiation\<close>

text \<open>
  \<^verbatim>\<open>ChromaNegotiation\<close> returns a \<^verbatim>\<open>bool\<close>. The model keeps which exit was taken:
  \<open>Negotiated\<close> is \<^verbatim>\<open>return true\<close>, every other value but the last is a
  \<^verbatim>\<open>return false\<close>, named after the \<^verbatim>\<open>msg_Err\<close> in front of it.
  \<open>UndefinedShift\<close> is the evaluation of \<^verbatim>\<open>1 << crtc_index\<close> with a shift count
  for which C defines no result.
\<close>

datatype neg_exit =
    Negotiated
  | NoResources
  | NoFormatList
  | ForcedDrmNotAvailable
  | ForcedVlcNotMatching
  | NothingFound
  | UndefinedShift

text \<open>The two assignments that adopt element \<open>e\<close>, inside \<^verbatim>\<open>if (!sys->forced_drm_fourcc)\<close>.\<close>

definition adopt :: "entry \<Rightarrow> sys \<Rightarrow> sys" where
  "adopt e s =
     (if \<not> sys_forced_drm_fourcc s
      then s\<lparr> sys_drm_fourcc := drm e, sys_plane_id := plane_id e \<rparr> else s)"

text \<open>
  The third and fourth loops (lines 400 to 427). \<^verbatim>\<open>vlc_fourcc_IsYUV\<close> is
  defined elsewhere in VLC and is a parameter. The third loop starts with
  \<^verbatim>\<open>c = i = 0\<close>; the fourth starts with \<^verbatim>\<open>i = 0\<close> only, so it goes on from the
  value of \<^verbatim>\<open>c\<close> the third loop left.
\<close>

definition family_loops :: "(u32 \<Rightarrow> bool) \<Rightarrow> entry list \<Rightarrow> sys \<Rightarrow> neg_exit \<times> sys" where
  "family_loops vlc_fourcc_IsYUV tbl s =
     (let YUVFormat = vlc_fourcc_IsYUV (sys_vlc_fourcc s);
          c = for_c (\<lambda>e. isYUV e = YUVFormat \<and> present e) tbl 0 in
      if c < length tbl then
        (Negotiated, (adopt (tbl ! c) s)\<lparr> sys_vlc_fourcc := vlc (tbl ! c) \<rparr>)
      else
        (let c = for_c (\<lambda>e. (\<not> isYUV e) \<noteq> YUVFormat \<and> present e) tbl c in
         if c < length tbl then
           (Negotiated, (adopt (tbl ! c) s)\<lparr> sys_vlc_fourcc := vlc (tbl ! c) \<rparr>)
         else (NothingFound, s)))"

text \<open>Lines 365 to 428: what \<^verbatim>\<open>ChromaNegotiation\<close> does once the planes are scanned.\<close>

definition negotiate :: "(u32 \<Rightarrow> bool) \<Rightarrow> entry list \<Rightarrow> sys \<Rightarrow> neg_exit \<times> sys" where
  "negotiate vlc_fourcc_IsYUV tbl s =
     (if sys_forced_drm_fourcc s then
        (let c = for_c (\<lambda>e. drm e = sys_drm_fourcc s) tbl 0;
             s1 = (if c < length tbl then s\<lparr> sys_vlc_fourcc := vlc (tbl ! c) \<rparr> else s) in
         if sys_plane_id s1 = 0 then (ForcedDrmNotAvailable, s1) else (Negotiated, s1))
      else
        (let c = for_c (\<lambda>e. vlc e = sys_vlc_fourcc s) tbl 0 in
         if c < length tbl then
           (let s1 = (if \<not> sys_forced_drm_fourcc s \<and> present (tbl ! c)
                      then s\<lparr> sys_drm_fourcc := drm (tbl ! c), sys_plane_id := plane_id (tbl ! c) \<rparr>
                      else s) in
            if sys_drm_fourcc s1 = 0 then (ForcedVlcNotMatching, s1) else (Negotiated, s1))
         else family_loops vlc_fourcc_IsYUV tbl s))"

section \<open>Scanning the planes\<close>

text \<open>The fields of \<^verbatim>\<open>drmModePlane\<close> that are read.\<close>

record drmModePlane =
  pl_plane_id :: u32
  pl_formats :: "u32 list"
  pl_possible_crtcs :: u32

text \<open>
  What a call of \<^verbatim>\<open>Open\<close> is given from outside the file: the window, the two
  configuration strings, the source format, two functions of the VLC core that are
  defined in other files, the answers of the kernel's query interface, the picture
  size after \<^verbatim>\<open>video_format_ApplyRotation\<close>, and whether the two allocations
  succeed. \<open>res_crtcs = None\<close> is \<^verbatim>\<open>drmModeGetResources\<close> returning null;
  \<open>plane_res\<close> holds, for each plane id of \<^verbatim>\<open>drmModeGetPlaneResources\<close>, what
  \<^verbatim>\<open>drmModeGetPlane\<close> returns for it.
\<close>

record host =
  window_is_kms :: bool
  calloc_ok :: bool
  kms_vlc_chroma :: "string option"
  kms_drm_chroma :: "string option"
  source_i_chroma :: u32
  vlc_fourcc_GetCodecFromString :: "string \<Rightarrow> u32"
  vlc_fourcc_IsYUV :: "u32 \<Rightarrow> bool"
  handle_crtc :: u32
  res_crtcs :: "u32 list option"
  plane_res :: "drmModePlane option list option"
  fmt_visible_width :: u32
  fmt_visible_height :: u32
  picture_new_ok :: bool

text \<open>
  The loop that looks for \<^verbatim>\<open>wnd->handle.crtc\<close> among \<^verbatim>\<open>resources->crtcs\<close>;
  \<^verbatim>\<open>crtc_index\<close> stays \<open>-1\<close> when it is not there.
\<close>

fun find_crtc :: "u32 list \<Rightarrow> u32 \<Rightarrow> int \<Rightarrow> int" where
  "find_crtc [] crtc crtc_id = -1"
| "find_crtc (x # xs) crtc crtc_id =
     (if x = crtc then crtc_id else find_crtc xs crtc (crtc_id + 1))"

text \<open>
  \<^verbatim>\<open>1 << crtc_index\<close> is a shift of an \<^verbatim>\<open>int\<close>: C gives it a value for the counts
  0 to 30 only.
\<close>

definition shl_1 :: "int \<Rightarrow> u32 option" where
  "shl_1 n = (if 0 \<le> n \<and> n < 31 then Some (push_bit (nat n) 1) else None)"

text \<open>The loop over \<^verbatim>\<open>plane->formats\<close>.\<close>

fun scan_formats :: "u32 \<Rightarrow> u32 list \<Rightarrow> sys \<times> entry list \<Rightarrow> sys \<times> entry list" where
  "scan_formats pid [] st = st"
| "scan_formats pid (f # fs) (s, tbl) =
     scan_formats pid fs
       ((if sys_forced_drm_fourcc s \<and> sys_plane_id s = 0 \<and> f = sys_drm_fourcc s
         then s\<lparr> sys_plane_id := pid \<rparr> else s),
        CheckFourCCList f pid tbl)"

text \<open>
  The loop over the planes. \<open>None\<close> in the first component means the loop ran to
  its end. The lookup of the plane's \<^verbatim>\<open>type\<close> property only feeds the debug
  listing and is left out.
\<close>

fun scan_planes ::
  "int \<Rightarrow> drmModePlane option list \<Rightarrow> sys \<times> entry list \<Rightarrow> neg_exit option \<times> sys \<times> entry list" where
  "scan_planes crtc_index [] (s, tbl) = (None, s, tbl)"
| "scan_planes crtc_index (None # ps) (s, tbl) = (Some NoFormatList, s, tbl)"
| "scan_planes crtc_index (Some plane # ps) (s, tbl) =
     (if pl_formats plane \<noteq> [] then
        (case shl_1 crtc_index of
           None \<Rightarrow> (Some UndefinedShift, s, tbl)
         | Some bit_c \<Rightarrow>
             if pl_possible_crtcs plane AND bit_c = 0 then scan_planes crtc_index ps (s, tbl)
             else scan_planes crtc_index ps
                    (scan_formats (pl_plane_id plane) (pl_formats plane) (s, tbl)))
      else (Some NoFormatList, s, tbl))"

text \<open>
  Lines 282 to 363 of \<^verbatim>\<open>ChromaNegotiation\<close>: the scan. \<open>None\<close> in the first
  component means that the function goes on to the decision.
\<close>

definition ChromaNegotiation_scan ::
  "host \<Rightarrow> entry list \<Rightarrow> sys \<Rightarrow> neg_exit option \<times> sys \<times> entry list" where
  "ChromaNegotiation_scan h tbl s =
     (case res_crtcs h of
        None \<Rightarrow> (Some NoResources, s, tbl)
      | Some crtcs \<Rightarrow>
          (let crtc_index = find_crtc crtcs (handle_crtc h) 0;
               s0 = s\<lparr> sys_plane_id := 0 \<rparr> in
           case plane_res h of
             None \<Rightarrow> (None, s0, tbl)
           | Some planes \<Rightarrow>
               if planes \<noteq> [] then scan_planes crtc_index planes (s0, tbl)
               else (None, s0, tbl)))"

text \<open>\<^verbatim>\<open>ChromaNegotiation\<close>: the scan, then the decision.\<close>

definition ChromaNegotiation :: "host \<Rightarrow> entry list \<Rightarrow> sys \<Rightarrow> neg_exit \<times> sys \<times> entry list" where
  "ChromaNegotiation h tbl s =
     (case ChromaNegotiation_scan h tbl s of
        (Some x, s1, tbl1) \<Rightarrow> (x, s1, tbl1)
      | (None, s1, tbl1) \<Rightarrow>
          (case negotiate (vlc_fourcc_IsYUV h) tbl1 s1 of (x, s2) \<Rightarrow> (x, s2, tbl1)))"

section \<open>The device\<close>

text \<open>
  The calls the file makes on the DRM file descriptor, with the arguments that
  matter here. For \<^verbatim>\<open>drmModeAddFB2\<close>: width, height, format, and the three
  arrays handles, pitches and offsets.
\<close>

datatype drm_call =
    CREATE_DUMB u32 u32 u32
  | DESTROY_DUMB u32
  | AddFB2 u32 u32 u32 "u32 list" "u32 list" "u32 list"
  | RmFB u32
  | MAP_DUMB u32
  | Mmap u32 "64 word"
  | Munmap addr u32
  | SetPlane u32 u32

text \<open>
  The device keeps what has been acquired from it and not released: dumb buffers
  by handle, framebuffer objects by id, mappings by address and length. Each is
  a multiset, so that releasing removes one acquisition and releasing what is not
  held changes nothing. \<open>calls\<close> is the sequence of calls made so far.
\<close>

record device =
  dumb_buffers :: "u32 multiset"
  framebuffers :: "u32 multiset"
  mappings :: "(addr \<times> u32) multiset"
  calls :: "drm_call list"

text \<open>
  What the kernel answers when buffer \<open>buf\<close> is built: \<open>None\<close> is a failing call.
  The size of a dumb buffer is a function of the request (width, height, bits per
  pixel). \<^verbatim>\<open>mmap\<close> answers an address, \<^verbatim>\<open>MAP_FAILED\<close> when it fails.
\<close>

record kernel =
  create_dumb :: "nat \<Rightarrow> u32 option"
  dumb_size :: "u32 \<Rightarrow> u32 \<Rightarrow> u32 \<Rightarrow> u32"
  add_fb2 :: "nat \<Rightarrow> u32 option"
  map_dumb :: "nat \<Rightarrow> 64 word option"
  mmap_ret :: "nat \<Rightarrow> addr"

definition MAP_FAILED :: addr where
  "MAP_FAILED = - 1"

definition logged :: "drm_call \<Rightarrow> device \<Rightarrow> device" where
  "logged c d = d\<lparr> calls := calls d @ [c] \<rparr>"

text \<open>
  \<^verbatim>\<open>drmIoctl(drm_fd, DRM_IOCTL_MODE_CREATE_DUMB, &create_req)\<close>: the return value
  (0, or \<open>-1\<close> on failure), and \<^verbatim>\<open>create_req.handle\<close> and \<^verbatim>\<open>create_req.size\<close>
  after the call. A failed call leaves the two fields as the initializer set them.
\<close>

definition ioctl_create_dumb ::
  "kernel \<Rightarrow> nat \<Rightarrow> u32 \<Rightarrow> u32 \<Rightarrow> u32 \<Rightarrow> device \<Rightarrow> int \<times> u32 \<times> u32 \<times> device" where
  "ioctl_create_dumb k buf w h bpp d =
     (case create_dumb k buf of
        None \<Rightarrow> (- 1, 0, 0, logged (CREATE_DUMB w h bpp) d)
      | Some hnd \<Rightarrow>
          (0, hnd, dumb_size k w h bpp,
           logged (CREATE_DUMB w h bpp) (d\<lparr> dumb_buffers := add_mset hnd (dumb_buffers d) \<rparr>)))"

definition ioctl_destroy_dumb :: "u32 \<Rightarrow> device \<Rightarrow> device" where
  "ioctl_destroy_dumb hnd d =
     logged (DESTROY_DUMB hnd) (d\<lparr> dumb_buffers := dumb_buffers d - {#hnd#} \<rparr>)"

text \<open>
  \<^verbatim>\<open>drmModeAddFB2\<close>: the return value and the id written through \<^verbatim>\<open>buf_id\<close>
  (written on success only: \<open>None\<close> leaves \<^verbatim>\<open>sys->fb[buf]\<close> as it was).
\<close>

definition drmModeAddFB2 ::
  "kernel \<Rightarrow> nat \<Rightarrow> u32 \<Rightarrow> u32 \<Rightarrow> u32 \<Rightarrow> u32 list \<times> u32 list \<times> u32 list \<Rightarrow> device
     \<Rightarrow> int \<times> u32 option \<times> device" where
  "drmModeAddFB2 k buf w h fourcc planes d =
     (case planes of (handles, pitches, offsets) \<Rightarrow>
        (case add_fb2 k buf of
           None \<Rightarrow> (- 1, None, logged (AddFB2 w h fourcc handles pitches offsets) d)
         | Some f \<Rightarrow>
             (0, Some f,
              logged (AddFB2 w h fourcc handles pitches offsets)
                (d\<lparr> framebuffers := add_mset f (framebuffers d) \<rparr>))))"

definition drmModeRmFB :: "u32 \<Rightarrow> device \<Rightarrow> device" where
  "drmModeRmFB f d = logged (RmFB f) (d\<lparr> framebuffers := framebuffers d - {#f#} \<rparr>)"

definition ioctl_map_dumb :: "kernel \<Rightarrow> nat \<Rightarrow> u32 \<Rightarrow> device \<Rightarrow> int \<times> 64 word \<times> device" where
  "ioctl_map_dumb k buf hnd d =
     (case map_dumb k buf of
        None \<Rightarrow> (- 1, 0, logged (MAP_DUMB hnd) d)
      | Some off \<Rightarrow> (0, off, logged (MAP_DUMB hnd) d))"

definition mmap :: "kernel \<Rightarrow> nat \<Rightarrow> u32 \<Rightarrow> 64 word \<Rightarrow> device \<Rightarrow> addr \<times> device" where
  "mmap k buf len off d =
     (let a = mmap_ret k buf in
      if a = MAP_FAILED then (a, logged (Mmap len off) d)
      else (a, logged (Mmap len off) (d\<lparr> mappings := add_mset (a, len) (mappings d) \<rparr>)))"

definition munmap :: "addr \<Rightarrow> u32 \<Rightarrow> device \<Rightarrow> device" where
  "munmap a len d = logged (Munmap a len) (d\<lparr> mappings := mappings d - {#(a, len)#} \<rparr>)"

section \<open>Building and destroying one buffer\<close>

text \<open>
  Modelled from the spec: \<^verbatim>\<open>vlc_align\<close> is defined in \<^verbatim>\<open>vlc_common.h\<close>, which is
  not part of the file. The spec writes it \<open>align(x, a)\<close> and uses it for the
  tiling alignment of strides and heights: \<open>x\<close> rounded up to the next multiple of
  \<open>a\<close>. Its argument and result are \<^verbatim>\<open>size_t\<close>, here a natural number.
\<close>

definition vlc_align :: "nat \<Rightarrow> nat \<Rightarrow> nat" where
  "vlc_align v a = ((v + (a - 1)) div a) * a"

text \<open>\<^verbatim>\<open>unsigned int tile_width = 512, tile_height = 16;\<close>\<close>

definition tile_width :: nat where
  "tile_width = 512"

definition tile_height :: nat where
  "tile_height = 16"

text \<open>
  The \<^verbatim>\<open>switch (sys->drm_fourcc)\<close> of \<^verbatim>\<open>CreateFB\<close>, with the three P01x codes
  defined: the updated structure and \<^verbatim>\<open>create_req.height\<close>. The products
  \<^verbatim>\<open>sys->width*2\<close> and \<^verbatim>\<open>sys->width*4\<close> are \<^verbatim>\<open>uint32_t\<close> and wrap. What
  \<^verbatim>\<open>vlc_align\<close> returns, and the products with it, are \<^verbatim>\<open>size_t\<close>: they are exact
  on 64 bits (each is below \<open>2^64\<close>), and are cut to 32 bits when they are stored in
  a \<^verbatim>\<open>uint32_t\<close> field. With a \<^verbatim>\<open>size_t\<close> of 32 bits the stored values are the
  same, since 512 and 16 divide \<open>2^32\<close>.
\<close>

definition CreateFB_layout :: "sys \<Rightarrow> sys \<times> u32" where
  "CreateFB_layout s =
     (if sys_drm_fourcc s = DRM_FORMAT_P010 \<or> sys_drm_fourcc s = DRM_FORMAT_P012
         \<or> sys_drm_fourcc s = DRM_FORMAT_P016 then
        (let s1 = s\<lparr> sys_stride := of_nat (vlc_align (unat (sys_width s * 2)) tile_width) \<rparr>;
             s2 = s1\<lparr> sys_offsets := (sys_offsets s1)
                        [1 := of_nat (unat (sys_stride s1) * vlc_align (unat (sys_height s1)) tile_height)] \<rparr>
         in (s2, of_nat (2 * vlc_align (unat (sys_height s2)) tile_height)))
      else if sys_drm_fourcc s = DRM_FORMAT_NV12 then
        (let s1 = s\<lparr> sys_stride := of_nat (vlc_align (unat (sys_width s)) tile_width) \<rparr>;
             s2 = s1\<lparr> sys_offsets := (sys_offsets s1)
                        [1 := of_nat (unat (sys_stride s1) * vlc_align (unat (sys_height s1)) tile_height)] \<rparr>
         in (s2, of_nat (2 * vlc_align (unat (sys_height s2)) tile_height)))
      else
        (s\<lparr> sys_stride := of_nat (vlc_align (unat (sys_width s * 4)) tile_width) \<rparr>,
         of_nat (vlc_align (unat (sys_height s)) tile_height)))"

text \<open>
  The loop that fills \<^verbatim>\<open>handles\<close>, \<^verbatim>\<open>pitches\<close> and \<^verbatim>\<open>offsets\<close> for
  \<^verbatim>\<open>drmModeAddFB2\<close>; the three arrays have four elements.
\<close>

function fb_planes ::
  "u32 \<Rightarrow> sys \<Rightarrow> nat \<Rightarrow> u32 list \<times> u32 list \<times> u32 list \<Rightarrow> u32 list \<times> u32 list \<times> u32 list" where
  "fb_planes hnd s i (handles, pitches, offsets) =
     (if i < 4 \<and> (sys_offsets s ! i \<noteq> 0 \<or> i < 1) then
        fb_planes hnd s (Suc i)
          (handles[i := hnd], pitches[i := sys_stride s], offsets[i := sys_offsets s ! i])
      else (handles, pitches, offsets))"
  by pat_completeness auto
termination
  by (relation "measure (\<lambda>(hnd, s, i, arrays). 4 - i)") auto

text \<open>The labels \<^verbatim>\<open>err_destroy\<close> and \<^verbatim>\<open>err_fb\<close>.\<close>

definition err_destroy :: "nat \<Rightarrow> sys \<Rightarrow> device \<Rightarrow> deviceRval \<times> sys \<times> device" where
  "err_destroy buf s d = (drvFail, s, ioctl_destroy_dumb (sys_handle s ! buf) d)"

definition err_fb :: "nat \<Rightarrow> sys \<Rightarrow> device \<Rightarrow> deviceRval \<times> sys \<times> device" where
  "err_fb buf s d =
     err_destroy buf (s\<lparr> sys_fb := (sys_fb s)[buf := 0] \<rparr>) (drmModeRmFB (sys_fb s ! buf) d)"

text \<open>
  \<^verbatim>\<open>CreateFB(vd, buf)\<close>. The variable \<^verbatim>\<open>ret\<close> is declared \<^verbatim>\<open>deviceRval\<close>, an
  enumeration without a negative enumerator: GCC and Clang give such a type the
  representation of \<^verbatim>\<open>unsigned int\<close>. \<^verbatim>\<open>ret\<close> is therefore a 32-bit word, the
  \<^verbatim>\<open>int\<close> that a call returns converted to it, and the tests of the source are
  made on that word. The test \<^verbatim>\<open>ret < 0\<close> after CREATE_DUMB is never true, also
  when \<^verbatim>\<open>drmIoctl\<close> returned \<open>-1\<close>: the function then goes on with the
  \<^verbatim>\<open>create_req.handle\<close> and \<^verbatim>\<open>create_req.size\<close> of the failed call. The two
  other tests are \<^verbatim>\<open>ret\<close> different from zero.
\<close>

definition CreateFB :: "kernel \<Rightarrow> nat \<Rightarrow> sys \<Rightarrow> device \<Rightarrow> deviceRval \<times> sys \<times> device" where
  "CreateFB k buf s d =
     (case CreateFB_layout s of (s1, create_req_height) \<Rightarrow>
      (case ioctl_create_dumb k buf (sys_width s) create_req_height 32 d of
         (rc, create_req_handle, create_req_size, d1) \<Rightarrow>
      (let ret = (of_int rc :: u32) in
      if ret < 0 then (drvFail, s1, d1)
      else
        (let s2 = s1\<lparr> sys_size := create_req_size,
                      sys_handle := (sys_handle s1)[buf := create_req_handle] \<rparr> in
         case drmModeAddFB2 k buf (sys_width s2) (sys_height s2) (sys_drm_fourcc s2)
                (fb_planes create_req_handle s2 0
                   (replicate 4 0, replicate 4 0, replicate 4 0)) d1 of
           (rc, buf_id, d2) \<Rightarrow>
         (let ret = (of_int rc :: u32);
              s3 = (case buf_id of None \<Rightarrow> s2
                    | Some f \<Rightarrow> s2\<lparr> sys_fb := (sys_fb s2)[buf := f] \<rparr>) in
          if ret \<noteq> 0 then err_destroy buf s3 d2
          else
            (case ioctl_map_dumb k buf (sys_handle s3 ! buf) d2 of
               (rc, modify_req_offset, d3) \<Rightarrow>
             (let ret = (of_int rc :: u32) in
             if ret \<noteq> 0 then err_fb buf s3 d3
             else
               (case mmap k buf (sys_size s3) modify_req_offset d3 of
                  (a, d4) \<Rightarrow>
                (let s4 = s3\<lparr> sys_map := (sys_map s3)[buf := a] \<rparr> in
                 if sys_map s4 ! buf = MAP_FAILED then err_fb buf s4 d4
                 else (drvSuccess, s4, d4))))))))))"

text \<open>\<^verbatim>\<open>DestroyFB(vd, buf)\<close>.\<close>

definition DestroyFB :: "nat \<Rightarrow> sys \<Rightarrow> device \<Rightarrow> device" where
  "DestroyFB buf s d =
     ioctl_destroy_dumb (sys_handle s ! buf)
       (drmModeRmFB (sys_fb s ! buf)
          (munmap (sys_map s ! buf) (sys_size s) d))"

text \<open>
  \<^verbatim>\<open>for (c = lo; c < hi; c++) DestroyFB(vd, c);\<close>, the loop of
  \<^verbatim>\<open>CustomDestroyPicture\<close> and of the failure branch of \<^verbatim>\<open>Open\<close>.
\<close>

definition DestroyFB_range :: "nat \<Rightarrow> nat \<Rightarrow> sys \<Rightarrow> device \<Rightarrow> device" where
  "DestroyFB_range lo hi s d = fold (\<lambda>c. DestroyFB c s) [lo..<hi] d"

definition CustomDestroyPicture :: "sys \<Rightarrow> device \<Rightarrow> device" where
  "CustomDestroyPicture s d = DestroyFB_range 0 MAXHWBUF s d"

text \<open>
  \<^verbatim>\<open>Close\<close>. \<^verbatim>\<open>picture_Release\<close> gives the staging picture back to the core;
  it touches neither the device nor a field of \<^verbatim>\<open>sys\<close>.
\<close>

definition Close :: "sys \<Rightarrow> device \<Rightarrow> device" where
  "Close s d = CustomDestroyPicture s d"

section \<open>Opening the display\<close>

text \<open>
  How \<^verbatim>\<open>Open\<close> returns. It returns an \<^verbatim>\<open>int\<close>: one of the three VLC codes, or
  the \<^verbatim>\<open>deviceRval\<close> of the failed \<^verbatim>\<open>CreateFB\<close> (\<open>CreateFB_failed\<close>).
  \<open>Undefined\<close> stands for an execution that evaluates something C gives no
  meaning to (the shift above, or a read behind the end of a configuration string).
\<close>

datatype open_exit =
    VLC_SUCCESS
  | VLC_EGENERIC
  | VLC_ENOMEM
  | CreateFB_failed deviceRval
  | Undefined

text \<open>
  \<^verbatim>\<open>chroma[i]\<close> for a string returned by \<^verbatim>\<open>var_InheritString\<close>: its characters,
  then the terminating zero, then nothing that may be read. Characters are taken
  as the values 0 to 255.
\<close>

definition chroma_at :: "string \<Rightarrow> nat \<Rightarrow> u32 option" where
  "chroma_at chroma i =
     (if i < length chroma then Some (of_char (chroma ! i))
      else if i = length chroma then Some 0 else None)"

text \<open>\<^verbatim>\<open>VLC_FOURCC(chroma[0], chroma[1], chroma[2], chroma[3])\<close>.\<close>

definition VLC_FOURCC_of :: "string \<Rightarrow> u32 option" where
  "VLC_FOURCC_of chroma =
     (case (chroma_at chroma 0, chroma_at chroma 1, chroma_at chroma 2, chroma_at chroma 3) of
        (Some a, Some b, Some c, Some d) \<Rightarrow>
          Some (a OR push_bit 8 b OR push_bit 16 c OR push_bit 24 d)
      | _ \<Rightarrow> None)"

text \<open>
  Lines 546 to 580 of \<^verbatim>\<open>Open\<close>: the two overrides. \<open>None\<close> is the undefined
  read. Nothing in \<^verbatim>\<open>sys\<close> records whether \<^verbatim>\<open>vlc_fourcc\<close> came from
  \<^verbatim>\<open>kms-vlc-chroma\<close> or from the source.
\<close>

definition Open_chroma :: "host \<Rightarrow> sys \<Rightarrow> sys option" where
  "Open_chroma h s =
     (let s1 = (case kms_vlc_chroma h of
                  Some chroma \<Rightarrow>
                    (let local_vlc_chroma = vlc_fourcc_GetCodecFromString h chroma in
                     if local_vlc_chroma \<noteq> 0 then s\<lparr> sys_vlc_fourcc := local_vlc_chroma \<rparr>
                     else s\<lparr> sys_vlc_fourcc := source_i_chroma h \<rparr>)
                | None \<Rightarrow> s\<lparr> sys_vlc_fourcc := source_i_chroma h \<rparr>) in
      case kms_drm_chroma h of
        None \<Rightarrow> Some s1
      | Some chroma \<Rightarrow>
          (case VLC_FOURCC_of chroma of
             None \<Rightarrow> None
           | Some local_drm_chroma \<Rightarrow>
               if local_drm_chroma \<noteq> 0
               then Some (s1\<lparr> sys_forced_drm_fourcc := True, sys_drm_fourcc := local_drm_chroma \<rparr>)
               else Some s1))"

text \<open>
  Lines 592 to 599: the loop that builds the buffers from index \<open>c\<close> on, with
  its failure branch.
\<close>

function Open_buffers :: "kernel \<Rightarrow> nat \<Rightarrow> sys \<Rightarrow> device \<Rightarrow> deviceRval \<times> sys \<times> device" where
  "Open_buffers k c s d =
     (if c < MAXHWBUF then
        (case CreateFB k c s d of
           (ret, s1, d1) \<Rightarrow>
             if ret \<noteq> drvSuccess then (ret, s1, DestroyFB_range 0 c s1 d1)
             else Open_buffers k (Suc c) s1 d1)
      else (drvSuccess, s, d))"
  by pat_completeness auto
termination
  by (relation "measure (\<lambda>(k, c, s, d). MAXHWBUF - c)") auto

text \<open>
  Lines 611 to 615: the planes of the staging picture after
  \<^verbatim>\<open>picture_NewFromResource\<close> succeeded.
\<close>

definition Open_picture :: "sys \<Rightarrow> picture_t" where
  "Open_picture s =
     map (\<lambda>i. \<lparr> p_pixels = sys_map s ! 0 + ucast (sys_offsets s ! i),
                i_lines = sys_height s,
                i_pitch = sys_stride s \<rparr>) [0..<PICTURE_PLANE_MAX]"

text \<open>
  \<^verbatim>\<open>Open\<close>: the exit, \<^verbatim>\<open>vd->sys\<close> (\<open>None\<close> when it was not allocated), the table
  and the device.
\<close>

definition Open ::
  "host \<Rightarrow> kernel \<Rightarrow> entry list \<Rightarrow> device \<Rightarrow> open_exit \<times> sys option \<times> entry list \<times> device" where
  "Open h k tbl d =
     (if \<not> window_is_kms h then (VLC_EGENERIC, None, tbl, d)
      else if \<not> calloc_ok h then (VLC_ENOMEM, None, tbl, d)
      else
        (case Open_chroma h calloc_sys of
           None \<Rightarrow> (Undefined, Some calloc_sys, tbl, d)
         | Some s \<Rightarrow>
             (case ChromaNegotiation h tbl s of
                (x, s1, tbl1) \<Rightarrow>
                  if x = UndefinedShift then (Undefined, Some s1, tbl1, d)
                  else if x \<noteq> Negotiated then (VLC_EGENERIC, Some s1, tbl1, Close s1 d)
                  else
                    (let s2 = s1\<lparr> sys_width := fmt_visible_width h,
                                  sys_height := fmt_visible_height h \<rparr> in
                     case Open_buffers k 0 s2 d of
                       (ret, s3, d3) \<Rightarrow>
                         if ret \<noteq> drvSuccess then (CreateFB_failed ret, Some s3, tbl1, d3)
                         else if \<not> picture_new_ok h then (VLC_EGENERIC, Some s3, tbl1, d3)
                         else (VLC_SUCCESS,
                               Some (s3\<lparr> sys_picture := Some (Open_picture s3) \<rparr>),
                               tbl1, d3)))))"

section \<open>The presentation cycle\<close>

text \<open>
  How \<^verbatim>\<open>Display\<close> ends: it returns, or \<^verbatim>\<open>assert(ret != -EINVAL)\<close> stops the
  process (a build without \<^verbatim>\<open>NDEBUG\<close>), or it goes through a null
  \<^verbatim>\<open>sys->picture\<close>. The structure that is returned with the exit is \<^verbatim>\<open>sys\<close>
  as it is at that moment.
\<close>

datatype display_exit = Returned | AssertionFailed | NullPicture

definition EINVAL :: int where
  "EINVAL = 22"

text \<open>
  \<^verbatim>\<open>Display\<close>. \<open>ndebug\<close> says whether assertions are compiled out; \<open>ret\<close> is what
  \<^verbatim>\<open>drmModeSetPlane\<close> returns, 0 for a commit that was accepted.
\<close>

definition Display :: "bool \<Rightarrow> int \<Rightarrow> sys \<Rightarrow> device \<Rightarrow> display_exit \<times> sys \<times> device" where
  "Display ndebug ret s d =
     (let d1 = logged (SetPlane (sys_plane_id s) (sys_fb s ! unat (sys_front_buf s))) d in
      if ret \<noteq> 0 then
        (if \<not> ndebug \<and> ret = - EINVAL then (AssertionFailed, s, d1) else (Returned, s, d1))
      else
        (let s1 = s\<lparr> sys_front_buf := sys_front_buf s + 1 \<rparr>;
             s2 = s1\<lparr> sys_front_buf := sys_front_buf s1 mod of_nat MAXHWBUF \<rparr> in
         case sys_picture s2 of
           None \<Rightarrow> (NullPicture, s2, d1)
         | Some p \<Rightarrow>
             (Returned,
              s2\<lparr> sys_picture :=
                    Some (map (\<lambda>i. (p ! i)\<lparr> p_pixels :=
                                      sys_map s2 ! unat (sys_front_buf s2)
                                        + ucast (sys_offsets s2 ! i) \<rparr>)
                              [0..<PICTURE_PLANE_MAX]) \<rparr>,
              d1)))"

text \<open>
  \<^verbatim>\<open>Prepare\<close> is \<^verbatim>\<open>picture_Copy(sys->picture, pic)\<close>: the pixels of \<^verbatim>\<open>pic\<close> are
  written at the \<^verbatim>\<open>p_pixels\<close> of each plane of \<^verbatim>\<open>sys->picture\<close>. These
  addresses say which buffer a call of \<^verbatim>\<open>Prepare\<close> writes into.
\<close>

definition Prepare_target :: "sys \<Rightarrow> addr list option" where
  "Prepare_target s = map_option (map p_pixels) (sys_picture s)"

section \<open>The layout as the specification states it\<close>

text \<open>
  The three layouts of the specification, over the natural numbers, for
  comparison with \<open>CreateFB_layout\<close>: the stride in bytes, the height that is
  allocated, and the offset of the second plane (0 when there is one plane only).
\<close>

datatype layout_family = Default_layout | NV12_layout | P01x_layout

definition family_of :: "u32 \<Rightarrow> layout_family" where
  "family_of fourcc =
     (if fourcc = DRM_FORMAT_P010 \<or> fourcc = DRM_FORMAT_P012 \<or> fourcc = DRM_FORMAT_P016
      then P01x_layout
      else if fourcc = DRM_FORMAT_NV12 then NV12_layout else Default_layout)"

definition spec_strideBytes :: "layout_family \<Rightarrow> nat \<Rightarrow> nat" where
  "spec_strideBytes fam w =
     (case fam of
        Default_layout \<Rightarrow> vlc_align (w * 4) 512
      | NV12_layout \<Rightarrow> vlc_align w 512
      | P01x_layout \<Rightarrow> vlc_align (w * 2) 512)"

definition spec_allocHeight :: "layout_family \<Rightarrow> nat \<Rightarrow> nat" where
  "spec_allocHeight fam h =
     (case fam of
        Default_layout \<Rightarrow> vlc_align h 16
      | NV12_layout \<Rightarrow> 2 * vlc_align h 16
      | P01x_layout \<Rightarrow> 2 * vlc_align h 16)"

definition spec_chromaOffset :: "layout_family \<Rightarrow> nat \<Rightarrow> nat \<Rightarrow> nat" where
  "spec_chromaOffset fam w h =
     (case fam of
        Default_layout \<Rightarrow> 0
      | NV12_layout \<Rightarrow> spec_strideBytes fam w * vlc_align h 16
      | P01x_layout \<Rightarrow> spec_strideBytes fam w * vlc_align h 16)"

section \<open>What is observed of a run\<close>

text \<open>What the device holds.\<close>

definition held :: "device \<Rightarrow> u32 multiset \<times> u32 multiset \<times> (addr \<times> u32) multiset" where
  "held d = (dumb_buffers d, framebuffers d, mappings d)"

text \<open>The calls made between the device states \<open>d\<close> and \<open>d'\<close>.\<close>

definition new_calls :: "device \<Rightarrow> device \<Rightarrow> drm_call list" where
  "new_calls d d' = drop (length (calls d)) (calls d')"

fun is_allocation :: "drm_call \<Rightarrow> bool" where
  "is_allocation (CREATE_DUMB w h bpp) = True"
| "is_allocation c = False"

fun is_release :: "drm_call \<Rightarrow> bool" where
  "is_release (DESTROY_DUMB hnd) = True"
| "is_release (RmFB f) = True"
| "is_release (Munmap a len) = True"
| "is_release c = False"

text \<open>The array types of \<^verbatim>\<open>vout_display_sys_t\<close>: the lengths of the four lists.\<close>

definition sys_arrays :: "sys \<Rightarrow> bool" where
  "sys_arrays s =
     (length (sys_offsets s) = PICTURE_PLANE_MAX \<and> length (sys_handle s) = MAXHWBUF
      \<and> length (sys_map s) = MAXHWBUF \<and> length (sys_fb s) = MAXHWBUF)"

text \<open>Every call the kernel is asked for buffer \<open>buf\<close> succeeds.\<close>

definition buffer_ok :: "kernel \<Rightarrow> nat \<Rightarrow> bool" where
  "buffer_ok k buf =
     (create_dumb k buf \<noteq> None \<and> add_fb2 k buf \<noteq> None \<and> map_dumb k buf \<noteq> None
      \<and> mmap_ret k buf \<noteq> MAP_FAILED)"

text \<open>The size the kernel gives to every dumb buffer \<^verbatim>\<open>CreateFB\<close> asks for in state \<open>s\<close>.\<close>

definition buffer_size :: "kernel \<Rightarrow> sys \<Rightarrow> u32" where
  "buffer_size k s = dumb_size k (sys_width s) (snd (CreateFB_layout s)) 32"

text \<open>
  \<^verbatim>\<open>sys\<close> once CREATE_DUMB has answered handle \<open>hnd\<close> for buffer \<open>buf\<close>, and the
  \<^verbatim>\<open>drmModeAddFB2\<close> call that follows.
\<close>

definition after_create :: "kernel \<Rightarrow> nat \<Rightarrow> sys \<Rightarrow> u32 \<Rightarrow> sys" where
  "after_create k buf s hnd =
     (fst (CreateFB_layout s))\<lparr> sys_size := buffer_size k s,
                                 sys_handle := (sys_handle s)[buf := hnd] \<rparr>"

definition AddFB2_of :: "sys \<Rightarrow> u32 \<Rightarrow> drm_call" where
  "AddFB2_of s hnd =
     (case fb_planes hnd s 0 (replicate 4 0, replicate 4 0, replicate 4 0) of
        (handles, pitches, offsets) \<Rightarrow>
          AddFB2 (sys_width s) (sys_height s) (sys_drm_fourcc s) handles pitches offsets)"

text \<open>
  \<^verbatim>\<open>sys\<close> once CREATE_DUMB has failed for buffer \<open>buf\<close> and \<^verbatim>\<open>CreateFB\<close> has gone
  on: the handle and the size of the failed request, both 0, are recorded.
\<close>

definition after_failed_create :: "nat \<Rightarrow> sys \<Rightarrow> sys" where
  "after_failed_create buf s =
     (fst (CreateFB_layout s))\<lparr> sys_size := 0, sys_handle := (sys_handle s)[buf := 0] \<rparr>"

text \<open>\<^verbatim>\<open>sys\<close> after a \<^verbatim>\<open>CreateFB\<close> that returned \<^verbatim>\<open>drvSuccess\<close>.\<close>

definition after_CreateFB :: "kernel \<Rightarrow> nat \<Rightarrow> sys \<Rightarrow> sys" where
  "after_CreateFB k buf s =
     (after_create k buf s (the (create_dumb k buf)))
       \<lparr> sys_fb := (sys_fb s)[buf := the (add_fb2 k buf)],
         sys_map := (sys_map s)[buf := mmap_ret k buf] \<rparr>"

text \<open>
  The state of the loop of \<^verbatim>\<open>Open\<close> before buffer \<open>c\<close>: on top of \<open>base\<close>, the
  device holds what \<^verbatim>\<open>sys\<close> records for the buffers below \<open>c\<close>, each mapping with
  the size \<^verbatim>\<open>sys->size\<close> has.
\<close>

definition built ::
  "kernel \<Rightarrow> nat \<Rightarrow> sys \<Rightarrow> device \<Rightarrow> u32 multiset \<times> u32 multiset \<times> (addr \<times> u32) multiset \<Rightarrow> bool" where
  "built k c s d base =
     (sys_arrays s
      \<and> dumb_buffers d = fst base + mset (take c (sys_handle s))
      \<and> framebuffers d = fst (snd base) + mset (take c (sys_fb s))
      \<and> mappings d = snd (snd base) + mset (map (\<lambda>a. (a, buffer_size k s)) (take c (sys_map s)))
      \<and> (c = 0 \<or> sys_size s = buffer_size k s))"

text \<open>Below \<open>c\<close>, \<^verbatim>\<open>sys\<close> records what the kernel answered.\<close>

definition recorded :: "kernel \<Rightarrow> nat \<Rightarrow> sys \<Rightarrow> bool" where
  "recorded k c s =
     (take c (sys_handle s) = map (\<lambda>b. the (create_dumb k b)) [0..<c]
      \<and> take c (sys_fb s) = map (\<lambda>b. the (add_fb2 k b)) [0..<c]
      \<and> take c (sys_map s) = map (mmap_ret k) [0..<c])"

text \<open>Two states of \<^verbatim>\<open>sys\<close> that differ in the negotiated formats and the plane at most.\<close>

definition same_buffers :: "sys \<Rightarrow> sys \<Rightarrow> bool" where
  "same_buffers a b =
     (sys_handle a = sys_handle b \<and> sys_fb a = sys_fb b \<and> sys_map a = sys_map b
      \<and> sys_size a = sys_size b \<and> sys_offsets a = sys_offsets b
      \<and> sys_picture a = sys_picture b \<and> sys_front_buf a = sys_front_buf b
      \<and> sys_forced_drm_fourcc a = sys_forced_drm_fourcc b)"

text \<open>
  \<^verbatim>\<open>sys\<close> when \<^verbatim>\<open>Open\<close> enters its loop: after the negotiation, with the width and
  height of the rotated format.
\<close>

definition Open_sized :: "host \<Rightarrow> entry list \<Rightarrow> sys \<Rightarrow> sys" where
  "Open_sized h tbl s =
     (fst (snd (ChromaNegotiation h tbl s)))
       \<lparr> sys_width := fmt_visible_width h, sys_height := fmt_visible_height h \<rparr>"

section \<open>Concrete scenarios\<close>

text \<open>
  Inputs on which the results below are exercised. \<open>yuv_codecs\<close> stands for
  \<^verbatim>\<open>vlc_fourcc_IsYUV\<close> on the codes that occur. \<open>one_plane_host chroma formats\<close>
  is a KMS window on CRTC 41, no override, a source in format \<open>chroma\<close>, and one
  plane, id 31, usable on that CRTC, listing \<open>formats\<close>; the picture is 640 by 480.
\<close>

definition yuv_codecs :: "u32 \<Rightarrow> bool" where
  "yuv_codecs f =
     (f \<in> set [VLC_CODEC_I420, VLC_CODEC_P010, VLC_CODEC_NV12, VLC_CODEC_YUYV,
               VLC_CODEC_YVYU, VLC_CODEC_UYVY, VLC_CODEC_VYUY])"

definition one_plane_host :: "u32 \<Rightarrow> u32 list \<Rightarrow> host" where
  "one_plane_host chroma formats =
     \<lparr> window_is_kms = True, calloc_ok = True,
       kms_vlc_chroma = None, kms_drm_chroma = None,
       source_i_chroma = chroma,
       vlc_fourcc_GetCodecFromString = (\<lambda>name. 0),
       vlc_fourcc_IsYUV = yuv_codecs,
       handle_crtc = 41, res_crtcs = Some [41],
       plane_res = Some [Some \<lparr> pl_plane_id = 31, pl_formats = formats,
                                pl_possible_crtcs = 1 \<rparr>],
       fmt_visible_width = 640, fmt_visible_height = 480,
       picture_new_ok = True \<rparr>"

text \<open>
  A kernel on which every call succeeds: handles 1, 2, 3, framebuffer ids 100, 101,
  102, and three distinct mapping addresses. A kernel on which CREATE_DUMB fails for
  the second buffer, and with it the \<^verbatim>\<open>drmModeAddFB2\<close> that is given no handle. A
  device that holds nothing.
\<close>

definition working_kernel :: kernel where
  "working_kernel =
     \<lparr> create_dumb = (\<lambda>buf. Some (of_nat buf + 1)),
       dumb_size = (\<lambda>w h bpp. w * h * 4),
       add_fb2 = (\<lambda>buf. Some (of_nat buf + 100)),
       map_dumb = (\<lambda>buf. Some (push_bit 24 (of_nat buf))),
       mmap_ret = (\<lambda>buf. push_bit 24 (of_nat buf + 1)) \<rparr>"

definition second_create_fails :: kernel where
  "second_create_fails =
     working_kernel\<lparr> create_dumb := (\<lambda>buf. if buf = 1 then None else Some (of_nat buf + 1)),
                     add_fb2 := (\<lambda>buf. if buf = 1 then None else Some (of_nat buf + 100)) \<rparr>"

definition fresh_device :: device where
  "fresh_device = \<lparr> dumb_buffers = {#}, framebuffers = {#}, mappings = {#}, calls = [] \<rparr>"

text \<open>
  Two hosts: an NV12 source on a plane that lists NV12; and an I420 source on a
  plane that lists XRGB8888 only, with \<^verbatim>\<open>kms-drm-chroma\<close> set to NV12.
\<close>

definition nv12_host :: host where
  "nv12_host = one_plane_host VLC_CODEC_NV12 [DRM_FORMAT_NV12]"

definition forced_nv12_host :: host where
  "forced_nv12_host =
     (one_plane_host VLC_CODEC_I420 [DRM_FORMAT_XRGB8888])\<lparr> kms_drm_chroma := Some ''NV12'' \<rparr>"

section \<open>Loops over the table\<close>

lemmas fourcc_defs =
  fourcc_code_def
  DRM_FORMAT_XRGB8888_def DRM_FORMAT_RGB565_def DRM_FORMAT_P010_def DRM_FORMAT_P012_def
  DRM_FORMAT_P016_def DRM_FORMAT_NV12_def DRM_FORMAT_YUYV_def DRM_FORMAT_YVYU_def
  DRM_FORMAT_UYVY_def DRM_FORMAT_VYUY_def
  VLC_CODEC_RGB32_def VLC_CODEC_RGB16_def VLC_CODEC_P010_def VLC_CODEC_NV12_def
  VLC_CODEC_YUYV_def VLC_CODEC_YVYU_def VLC_CODEC_UYVY_def VLC_CODEC_VYUY_def
  VLC_CODEC_I420_def

declare for_c.simps [simp del]

lemma for_c_ge: "c \<le> for_c cond tbl c"
  by (induction cond tbl c rule: for_c.induct) (subst for_c.simps, auto)

lemma for_c_outside: "length tbl \<le> c \<Longrightarrow> for_c cond tbl c = c"
  by (subst for_c.simps) simp

lemma for_c_le: "c \<le> length tbl \<Longrightarrow> for_c cond tbl c \<le> length tbl"
  by (induction cond tbl c rule: for_c.induct) (subst for_c.simps, auto)

lemma for_c_hit: "for_c cond tbl c < length tbl \<Longrightarrow> cond (tbl ! for_c cond tbl c)"
  by (induction cond tbl c rule: for_c.induct) (subst (asm) for_c.simps, subst for_c.simps, auto split: if_splits)

lemma for_c_skipped: "c \<le> j \<Longrightarrow> j < for_c cond tbl c \<Longrightarrow> j < length tbl \<Longrightarrow> \<not> cond (tbl ! j)"
proof (induction cond tbl c rule: for_c.induct)
  case (1 cond tbl c)
  show ?case
  proof (cases "c < length tbl \<and> \<not> cond (tbl ! c)")
    case True
    then have eq: "for_c cond tbl c = for_c cond tbl (Suc c)"
      by (subst for_c.simps) simp
    show ?thesis
    proof (cases "j = c")
      case True
      with \<open>c < length tbl \<and> \<not> cond (tbl ! c)\<close> show ?thesis by simp
    next
      case False
      with "1.prems" have "Suc c \<le> j" by simp
      with "1.IH" True "1.prems" eq show ?thesis by simp
    qed
  next
    case False
    then have "for_c cond tbl c = c"
      by (subst for_c.simps) auto
    with "1.prems" show ?thesis by simp
  qed
qed

lemma for_c_first:
  assumes "c \<le> i" "i < length tbl" "cond (tbl ! i)" "\<forall>j. c \<le> j \<and> j < i \<longrightarrow> \<not> cond (tbl ! j)"
  shows "for_c cond tbl c = i"
proof -
  have le: "for_c cond tbl c \<le> i"
  proof (rule ccontr)
    assume "\<not> for_c cond tbl c \<le> i"
    then have "i < for_c cond tbl c" by simp
    from for_c_skipped [OF assms(1) this assms(2)] assms(3) show False by simp
  qed
  have "\<not> for_c cond tbl c < i"
  proof
    assume lt: "for_c cond tbl c < i"
    with assms(2) have "for_c cond tbl c < length tbl" by simp
    from for_c_hit [OF this] assms(4) lt for_c_ge [of c cond tbl] show False by blast
  qed
  with le show ?thesis by simp
qed

lemma for_c_none:
  assumes "c \<le> length tbl" "\<forall>j. c \<le> j \<and> j < length tbl \<longrightarrow> \<not> cond (tbl ! j)"
  shows "for_c cond tbl c = length tbl"
proof -
  have "\<not> for_c cond tbl c < length tbl"
  proof
    assume lt: "for_c cond tbl c < length tbl"
    from for_c_hit [OF lt] assms(2) lt for_c_ge [of c cond tbl] show False by blast
  qed
  with for_c_le [OF assms(1), of cond] show ?thesis by simp
qed


lemma CheckFourCCList_length: "length (CheckFourCCList f p tbl) = length tbl"
  by (simp add: CheckFourCCList_def Let_def)

lemma first_match_for_c:
  assumes "i < length tbl" "cond (tbl ! i)" "\<forall>e \<in> set (take i tbl). \<not> cond e"
  shows "for_c cond tbl 0 = i"
proof (rule for_c_first)
  show "\<forall>j. 0 \<le> j \<and> j < i \<longrightarrow> \<not> cond (tbl ! j)"
  proof (intro allI impI)
    fix j assume "0 \<le> j \<and> j < i"
    with assms(1) have "tbl ! j \<in> set (take i tbl)"
      by (metis in_set_conv_nth length_take min.absorb2 nth_take less_imp_le)
    with assms(3) show "\<not> cond (tbl ! j)" by blast
  qed
qed (use assms in auto)

section \<open>Marking a format present\<close>

text \<open>
  C9. For every DRM code \<open>f\<close>, every plane id and every table. When no element
  has the code \<open>f\<close>, \<^verbatim>\<open>CheckFourCCList(f, p)\<close> changes nothing. Otherwise let \<open>i\<close>
  be the first element whose code is \<open>f\<close>: the call changes nothing when that
  element is already present, and else sets \<open>present\<close> and records \<open>p\<close> on that
  element and leaves every other element as it was. In both cases a second call
  for the same code, with any plane id \<open>q\<close>, changes nothing: the plane recorded
  is the first one found.
\<close>

theorem CheckFourCCList_first_match_once:
  "(f \<notin> drm ` set tbl \<longrightarrow> CheckFourCCList f p tbl = tbl)
   \<and> (i < length tbl \<and> drm (tbl ! i) = f \<and> f \<notin> drm ` set (take i tbl) \<longrightarrow>
        CheckFourCCList f p tbl =
          (if present (tbl ! i) then tbl
           else tbl[i := (tbl ! i)\<lparr> present := True, plane_id := p \<rparr>]))
   \<and> CheckFourCCList f q (CheckFourCCList f p tbl) = CheckFourCCList f p tbl"
proof (intro conjI impI)
  assume none: "f \<notin> drm ` set tbl"
  have "\<forall>j. 0 \<le> j \<and> j < length tbl \<longrightarrow> \<not> drm (tbl ! j) = f"
    using none by (metis imageI nth_mem)
  then have "for_c (\<lambda>e. drm e = f) tbl 0 = length tbl"
    by (intro for_c_none) simp_all
  then show "CheckFourCCList f p tbl = tbl"
    by (simp add: CheckFourCCList_def)
next
  assume first: "i < length tbl \<and> drm (tbl ! i) = f \<and> f \<notin> drm ` set (take i tbl)"
  then have none: "\<forall>e \<in> set (take i tbl). \<not> drm e = f"
    by (metis imageI)
  have idx: "for_c (\<lambda>e. drm e = f) tbl 0 = i"
    by (rule first_match_for_c [OF _ _ none]) (use first in simp_all)
  with first show "CheckFourCCList f p tbl =
          (if present (tbl ! i) then tbl
           else tbl[i := (tbl ! i)\<lparr> present := True, plane_id := p \<rparr>])"
    by (simp add: CheckFourCCList_def)
next
  define n where "n = for_c (\<lambda>e. drm e = f) tbl 0"
  define tbl' where "tbl' = CheckFourCCList f p tbl"
  show "CheckFourCCList f q (CheckFourCCList f p tbl) = CheckFourCCList f p tbl"
  proof (cases "n < length tbl")
    case False
    then have "tbl' = tbl"
      by (simp add: tbl'_def CheckFourCCList_def n_def)
    with False show ?thesis
      by (simp add: tbl'_def CheckFourCCList_def n_def)
  next
    case True
    have hit: "drm (tbl ! n) = f"
      using for_c_hit [of "\<lambda>e. drm e = f" tbl 0] True by (simp add: n_def)
    have skipped: "\<forall>j. 0 \<le> j \<and> j < n \<longrightarrow> \<not> drm (tbl ! j) = f"
      using for_c_skipped [of 0 _ "\<lambda>e. drm e = f" tbl] True by (simp add: n_def)
    have first: "tbl' = (if present (tbl ! n) then tbl
                         else tbl[n := (tbl ! n)\<lparr> present := True, plane_id := p \<rparr>])"
      using True by (simp add: tbl'_def CheckFourCCList_def n_def Let_def)
    have len': "n < length tbl'"
      using True by (simp add: tbl'_def CheckFourCCList_length)
    have at_n: "drm (tbl' ! n) = f" "present (tbl' ! n)"
      using first True hit by auto
    have skipped': "\<forall>j. 0 \<le> j \<and> j < n \<longrightarrow> \<not> drm (tbl' ! j) = f"
      using first skipped by auto
    have idx': "for_c (\<lambda>e. drm e = f) tbl' 0 = n"
      by (rule for_c_first [OF _ len' _ skipped']) (simp_all add: at_n(1))
    have "CheckFourCCList f q tbl' = tbl'"
      using idx' len' at_n(2) by (simp add: CheckFourCCList_def)
    then show ?thesis by (simp add: tbl'_def)
  qed
qed

text \<open>
  The theorem on the initial table: for P012, which has no element, and for NV12,
  the element at index 3, with planes 31 and then 44.
\<close>

theorem CheckFourCCList_first_match_once_witness:
  "CheckFourCCList DRM_FORMAT_P012 31 fourccmatching = fourccmatching
   \<and> CheckFourCCList DRM_FORMAT_NV12 31 fourccmatching
     = fourccmatching[3 := (fourccmatching ! 3)\<lparr> present := True, plane_id := 31 \<rparr>]
   \<and> CheckFourCCList DRM_FORMAT_NV12 44 (CheckFourCCList DRM_FORMAT_NV12 31 fourccmatching)
     = CheckFourCCList DRM_FORMAT_NV12 31 fourccmatching"
proof -
  have h0: "DRM_FORMAT_P012 \<notin> drm ` set fourccmatching"
    by (simp add: fourccmatching_def mk_entry_def fourcc_defs)
  have h1: "3 < length fourccmatching"
    by (simp add: fourccmatching_def)
  have h2: "drm (fourccmatching ! 3) = DRM_FORMAT_NV12"
    by (simp add: fourccmatching_def mk_entry_def)
  have h3: "DRM_FORMAT_NV12 \<notin> drm ` set (take 3 fourccmatching)"
    by (simp add: fourccmatching_def mk_entry_def fourcc_defs)
  have np: "\<not> present (fourccmatching ! 3)"
    by (simp add: fourccmatching_def mk_entry_def)
  note u = CheckFourCCList_first_match_once [of DRM_FORMAT_P012 fourccmatching 31 0 44]
  note t = CheckFourCCList_first_match_once [of DRM_FORMAT_NV12 fourccmatching 31 3 44]
  from u h0 have a: "CheckFourCCList DRM_FORMAT_P012 31 fourccmatching = fourccmatching"
    by blast
  from t h1 h2 h3 have b0: "CheckFourCCList DRM_FORMAT_NV12 31 fourccmatching =
      (if present (fourccmatching ! 3) then fourccmatching
       else fourccmatching[3 := (fourccmatching ! 3)\<lparr> present := True, plane_id := 31 \<rparr>])"
    by blast
  from b0 np have b: "CheckFourCCList DRM_FORMAT_NV12 31 fourccmatching
     = fourccmatching[3 := (fourccmatching ! 3)\<lparr> present := True, plane_id := 31 \<rparr>]"
    by (simp only: if_False)
  from t have c: "CheckFourCCList DRM_FORMAT_NV12 44 (CheckFourCCList DRM_FORMAT_NV12 31 fourccmatching)
     = CheckFourCCList DRM_FORMAT_NV12 31 fourccmatching"
    by blast
  from a b c show ?thesis by blast
qed

section \<open>Negotiation\<close>

lemma family_loops_fourth_loop_dead:
  assumes "\<not> for_c (\<lambda>e. isYUV e = isyuv (sys_vlc_fourcc s) \<and> present e) tbl 0 < length tbl"
  shows "family_loops isyuv tbl s = (NothingFound, s)"
proof -
  let ?c = "for_c (\<lambda>e. isYUV e = isyuv (sys_vlc_fourcc s) \<and> present e) tbl 0"
  from assms have "length tbl \<le> ?c" by simp
  then have "for_c (\<lambda>e. (\<not> isYUV e) \<noteq> isyuv (sys_vlc_fourcc s) \<and> present e) tbl ?c = ?c"
    by (rule for_c_outside)
  with assms show ?thesis
    by (simp add: family_loops_def Let_def)
qed

lemmas negotiation_defs =
  ChromaNegotiation_def ChromaNegotiation_scan_def negotiate_def family_loops_def adopt_def
  CheckFourCCList_def shl_1_def Open_chroma_def calloc_sys_def fourccmatching_def mk_entry_def
  Let_def one_plane_host_def yuv_codecs_def

text \<open>
  C1. The opposite-family tier is not reached. The plane lists XRGB8888 only, the
  source is I420 (a YUV format without an element in the table): after the scan
  the first element is present and is RGB, no element is present and YUV, and
  \<^verbatim>\<open>ChromaNegotiation\<close> returns false at its last line instead of adopting the
  first element. The lemma above gives the reason for every table: the fourth loop
  starts where the third one stopped, behind the last element.
\<close>

theorem opposite_family_not_adopted:
  "ChromaNegotiation (one_plane_host VLC_CODEC_I420 [DRM_FORMAT_XRGB8888]) fourccmatching
     (calloc_sys\<lparr> sys_vlc_fourcc := VLC_CODEC_I420 \<rparr>)
   = (NothingFound, calloc_sys\<lparr> sys_vlc_fourcc := VLC_CODEC_I420 \<rparr>,
      fourccmatching[0 := (fourccmatching ! 0)\<lparr> present := True, plane_id := 31 \<rparr>])"
  by (simp add: negotiation_defs for_c.simps fourcc_defs)

lemma Open_chroma_unforced:
  assumes "Open_chroma h calloc_sys = Some s" "\<not> sys_forced_drm_fourcc s"
  shows "sys_drm_fourcc s = 0"
  using assms
  by (auto simp: Open_chroma_def calloc_sys_def Let_def split: option.splits if_splits)

text \<open>
  The exact-match loop of lines 384 to 398 for every table: \<open>s\<close> is \<^verbatim>\<open>sys\<close> after
  the overrides were read, \<^verbatim>\<open>kms-vlc-chroma\<close> set or not. When no DRM format is
  forced and the first element with the desired logical format is not present,
  the function returns false after the message about a forced VLC fourcc, and the
  two family loops are not run. \<^verbatim>\<open>sys\<close> has no field that says where
  \<^verbatim>\<open>vlc_fourcc\<close> came from.
\<close>

lemma exact_match_not_present_returns_false:
  assumes "Open_chroma h calloc_sys = Some s" and "\<not> sys_forced_drm_fourcc s"
      and "i < length tbl" and "vlc (tbl ! i) = sys_vlc_fourcc s"
      and "sys_vlc_fourcc s \<notin> vlc ` set (take i tbl)"
      and "\<not> present (tbl ! i)"
  shows "negotiate isyuv tbl s = (ForcedVlcNotMatching, s)"
proof -
  have none: "\<forall>e \<in> set (take i tbl). \<not> vlc e = sys_vlc_fourcc s"
    using assms(5) by (metis imageI)
  have idx: "for_c (\<lambda>e. vlc e = sys_vlc_fourcc s) tbl 0 = i"
    by (rule first_match_for_c [OF assms(3) _ none]) (rule assms(4))
  from Open_chroma_unforced [OF assms(1,2)] idx assms(2,3,6) show ?thesis
    by (simp add: negotiate_def)
qed

text \<open>
  The other way into the family loops: a source format without an element in the
  table (I420) on a plane that lists NV12 only. The exact-match loop finds nothing
  and the third loop adopts NV12 on plane 31.
\<close>

lemma source_without_element_adopts_family:
  "ChromaNegotiation (one_plane_host VLC_CODEC_I420 [DRM_FORMAT_NV12]) fourccmatching
     (calloc_sys\<lparr> sys_vlc_fourcc := VLC_CODEC_I420 \<rparr>)
   = (Negotiated, calloc_sys\<lparr> sys_vlc_fourcc := VLC_CODEC_NV12,
                               sys_drm_fourcc := DRM_FORMAT_NV12, sys_plane_id := 31 \<rparr>,
      fourccmatching[3 := (fourccmatching ! 3)\<lparr> present := True, plane_id := 31 \<rparr>])"
  by (simp add: negotiation_defs for_c.simps fourcc_defs)

text \<open>
  The same defect with an 8-bit source: NV12 on a plane that lists YUYV only.
\<close>

lemma nv12_source_on_yuyv_plane:
  "ChromaNegotiation (one_plane_host VLC_CODEC_NV12 [DRM_FORMAT_YUYV]) fourccmatching
     (calloc_sys\<lparr> sys_vlc_fourcc := VLC_CODEC_NV12 \<rparr>)
     = (ForcedVlcNotMatching, calloc_sys\<lparr> sys_vlc_fourcc := VLC_CODEC_NV12 \<rparr>,
        fourccmatching[4 := (fourccmatching ! 4)\<lparr> present := True, plane_id := 31 \<rparr>])
   \<and> family_loops yuv_codecs
        (fourccmatching[4 := (fourccmatching ! 4)\<lparr> present := True, plane_id := 31 \<rparr>])
        (calloc_sys\<lparr> sys_vlc_fourcc := VLC_CODEC_NV12 \<rparr>)
       = (Negotiated, calloc_sys\<lparr> sys_vlc_fourcc := VLC_CODEC_YUYV,
                                   sys_drm_fourcc := DRM_FORMAT_YUYV, sys_plane_id := 31 \<rparr>)"
  by (simp add: negotiation_defs for_c.simps fourcc_defs)

text \<open>
  C2 fails on the code. No override is set (\<^verbatim>\<open>kms-vlc-chroma\<close> and
  \<^verbatim>\<open>kms-drm-chroma\<close> are unset), the source is P010 and the one plane lists NV12
  only: the desired logical format is the source's, its element of the table
  (index 2) is not present, and the 8-bit YUV format NV12 is present on plane 31.
  \<^verbatim>\<open>ChromaNegotiation\<close> returns false at the message about a forced VLC fourcc
  and \<^verbatim>\<open>Open\<close> returns \<^verbatim>\<open>VLC_EGENERIC\<close> without building a buffer. The family
  loops, had they been run on the table the scan left, adopt NV12 on plane 31, as
  they do for a source format without an element.
\<close>

theorem source_format_not_present_fails_as_forced:
  "kms_vlc_chroma (one_plane_host VLC_CODEC_P010 [DRM_FORMAT_NV12]) = None
   \<and> kms_drm_chroma (one_plane_host VLC_CODEC_P010 [DRM_FORMAT_NV12]) = None
   \<and> Open_chroma (one_plane_host VLC_CODEC_P010 [DRM_FORMAT_NV12]) calloc_sys
       = Some (calloc_sys\<lparr> sys_vlc_fourcc := VLC_CODEC_P010 \<rparr>)
   \<and> vlc (fourccmatching ! 2) = VLC_CODEC_P010
   \<and> ChromaNegotiation (one_plane_host VLC_CODEC_P010 [DRM_FORMAT_NV12]) fourccmatching
       (calloc_sys\<lparr> sys_vlc_fourcc := VLC_CODEC_P010 \<rparr>)
       = (ForcedVlcNotMatching, calloc_sys\<lparr> sys_vlc_fourcc := VLC_CODEC_P010 \<rparr>,
          fourccmatching[3 := (fourccmatching ! 3)\<lparr> present := True, plane_id := 31 \<rparr>])
   \<and> family_loops yuv_codecs
        (fourccmatching[3 := (fourccmatching ! 3)\<lparr> present := True, plane_id := 31 \<rparr>])
        (calloc_sys\<lparr> sys_vlc_fourcc := VLC_CODEC_P010 \<rparr>)
       = (Negotiated, calloc_sys\<lparr> sys_vlc_fourcc := VLC_CODEC_NV12,
                                   sys_drm_fourcc := DRM_FORMAT_NV12, sys_plane_id := 31 \<rparr>)
   \<and> fst (Open (one_plane_host VLC_CODEC_P010 [DRM_FORMAT_NV12]) working_kernel
             fourccmatching fresh_device) = VLC_EGENERIC
   \<and> filter is_allocation
        (new_calls fresh_device
           (snd (snd (snd (Open (one_plane_host VLC_CODEC_P010 [DRM_FORMAT_NV12]) working_kernel
                             fourccmatching fresh_device))))) = []"
proof -
  let ?h = "one_plane_host VLC_CODEC_P010 [DRM_FORMAT_NV12]"
  let ?s = "calloc_sys\<lparr> sys_vlc_fourcc := VLC_CODEC_P010 \<rparr>"
  let ?tbl = "fourccmatching[3 := (fourccmatching ! 3)\<lparr> present := True, plane_id := 31 \<rparr>]"
  have ov: "kms_vlc_chroma ?h = None" "kms_drm_chroma ?h = None"
           "window_is_kms ?h" "calloc_ok ?h"
    by (simp_all add: one_plane_host_def)
  have oc: "Open_chroma ?h calloc_sys = Some ?s"
    by (simp add: Open_chroma_def one_plane_host_def)
  have el: "vlc (fourccmatching ! 2) = VLC_CODEC_P010"
    by (simp add: fourccmatching_def mk_entry_def)
  have neg: "ChromaNegotiation ?h fourccmatching ?s = (ForcedVlcNotMatching, ?s, ?tbl)"
    by (simp add: negotiation_defs for_c.simps fourcc_defs)
  have fam: "family_loops yuv_codecs ?tbl ?s
       = (Negotiated, calloc_sys\<lparr> sys_vlc_fourcc := VLC_CODEC_NV12,
                                   sys_drm_fourcc := DRM_FORMAT_NV12, sys_plane_id := 31 \<rparr>)"
    by (simp add: negotiation_defs for_c.simps fourcc_defs)
  have opn: "Open ?h working_kernel fourccmatching fresh_device
       = (VLC_EGENERIC, Some ?s, ?tbl, Close ?s fresh_device)"
    by (simp add: Open_def ov oc neg)
  have cl: "filter is_allocation (new_calls fresh_device (Close ?s fresh_device)) = []"
    by (simp add: Close_def CustomDestroyPicture_def DestroyFB_range_def DestroyFB_def
        ioctl_destroy_dumb_def drmModeRmFB_def munmap_def logged_def calloc_sys_def
        fresh_device_def new_calls_def MAXHWBUF_def numeral_3_eq_3)
  from ov(1,2) oc el neg fam opn cl show ?thesis
    by simp
qed

section \<open>Building one buffer\<close>

declare fb_planes.simps [simp del]

declare Open_buffers.simps [simp del]

lemmas device_defs =
  ioctl_create_dumb_def ioctl_destroy_dumb_def drmModeAddFB2_def drmModeRmFB_def
  ioctl_map_dumb_def mmap_def munmap_def logged_def err_destroy_def err_fb_def

lemma CreateFB_layout_fields [simp]:
  "sys_handle (fst (CreateFB_layout s)) = sys_handle s"
  "sys_fb (fst (CreateFB_layout s)) = sys_fb s"
  "sys_map (fst (CreateFB_layout s)) = sys_map s"
  "sys_size (fst (CreateFB_layout s)) = sys_size s"
  "sys_width (fst (CreateFB_layout s)) = sys_width s"
  "sys_height (fst (CreateFB_layout s)) = sys_height s"
  "sys_drm_fourcc (fst (CreateFB_layout s)) = sys_drm_fourcc s"
  "sys_picture (fst (CreateFB_layout s)) = sys_picture s"
  "sys_front_buf (fst (CreateFB_layout s)) = sys_front_buf s"
  "length (sys_offsets (fst (CreateFB_layout s))) = length (sys_offsets s)"
  by (simp_all add: CreateFB_layout_def Let_def)

lemma CreateFB_layout_again [simp]:
  "snd (CreateFB_layout (fst (CreateFB_layout s))) = snd (CreateFB_layout s)"
  by (simp add: CreateFB_layout_def Let_def)

text \<open>
  The ways through \<^verbatim>\<open>CreateFB\<close>: which call fails first, if any. A failed
  CREATE_DUMB does not end the function: with it, \<^verbatim>\<open>CreateFB\<close> fails when
  \<^verbatim>\<open>drmModeAddFB2\<close> fails on handle 0, and returns \<^verbatim>\<open>drvSuccess\<close> with a mapping
  of length 0 when the three later calls succeed.
\<close>

lemma CreateFB_create_and_addfb_fail:
  assumes "create_dumb k buf = None" "add_fb2 k buf = None" "buf < length (sys_handle s)"
  shows "CreateFB k buf s d =
           (drvFail, after_failed_create buf s,
            d\<lparr> dumb_buffers := dumb_buffers d - {#0#},
               calls := calls d @ [CREATE_DUMB (sys_width s) (snd (CreateFB_layout s)) 32,
                                    AddFB2_of (after_failed_create buf s) 0,
                                    DESTROY_DUMB 0] \<rparr>)"
  using assms
  by (simp add: CreateFB_def device_defs after_failed_create_def AddFB2_of_def Let_def
           case_prod_beta)

lemma CreateFB_create_fails_alone:
  assumes "create_dumb k buf = None" "add_fb2 k buf = Some f" "map_dumb k buf = Some off"
    "mmap_ret k buf \<noteq> MAP_FAILED"
    "buf < length (sys_handle s)" "buf < length (sys_fb s)" "buf < length (sys_map s)"
  shows "CreateFB k buf s d =
           (drvSuccess, (after_failed_create buf s)\<lparr> sys_fb := (sys_fb s)[buf := f],
                                                      sys_map := (sys_map s)[buf := mmap_ret k buf] \<rparr>,
            d\<lparr> framebuffers := add_mset f (framebuffers d),
               mappings := add_mset (mmap_ret k buf, 0) (mappings d),
               calls := calls d @ [CREATE_DUMB (sys_width s) (snd (CreateFB_layout s)) 32,
                                    AddFB2_of (after_failed_create buf s) 0,
                                    MAP_DUMB 0, Mmap 0 off] \<rparr>)"
  using assms
  by (simp add: CreateFB_def device_defs after_failed_create_def AddFB2_of_def Let_def
           case_prod_beta)

lemma CreateFB_addfb_fails:
  assumes "create_dumb k buf = Some hnd" "add_fb2 k buf = None" "buf < length (sys_handle s)"
  shows "CreateFB k buf s d =
           (drvFail, after_create k buf s hnd,
            d\<lparr> calls := calls d @ [CREATE_DUMB (sys_width s) (snd (CreateFB_layout s)) 32,
                                    AddFB2_of (after_create k buf s hnd) hnd,
                                    DESTROY_DUMB hnd] \<rparr>)"
  using assms
  by (simp add: CreateFB_def device_defs after_create_def AddFB2_of_def buffer_size_def Let_def
           case_prod_beta)

lemma CreateFB_map_dumb_fails:
  assumes "create_dumb k buf = Some hnd" "add_fb2 k buf = Some f" "map_dumb k buf = None"
    "buf < length (sys_handle s)" "buf < length (sys_fb s)"
  shows "CreateFB k buf s d =
           (drvFail, (after_create k buf s hnd)\<lparr> sys_fb := (sys_fb s)[buf := 0] \<rparr>,
            d\<lparr> calls := calls d @ [CREATE_DUMB (sys_width s) (snd (CreateFB_layout s)) 32,
                                    AddFB2_of (after_create k buf s hnd) hnd,
                                    MAP_DUMB hnd, RmFB f, DESTROY_DUMB hnd] \<rparr>)"
  using assms
  by (simp add: CreateFB_def device_defs after_create_def AddFB2_of_def buffer_size_def Let_def
           case_prod_beta)

lemma CreateFB_mmap_fails:
  assumes "create_dumb k buf = Some hnd" "add_fb2 k buf = Some f" "map_dumb k buf = Some off"
    "mmap_ret k buf = MAP_FAILED"
    "buf < length (sys_handle s)" "buf < length (sys_fb s)" "buf < length (sys_map s)"
  shows "CreateFB k buf s d =
           (drvFail, (after_create k buf s hnd)\<lparr> sys_map := (sys_map s)[buf := MAP_FAILED],
                                                  sys_fb := (sys_fb s)[buf := 0] \<rparr>,
            d\<lparr> calls := calls d @ [CREATE_DUMB (sys_width s) (snd (CreateFB_layout s)) 32,
                                    AddFB2_of (after_create k buf s hnd) hnd,
                                    MAP_DUMB hnd, Mmap (buffer_size k s) off,
                                    RmFB f, DESTROY_DUMB hnd] \<rparr>)"
  using assms
  by (simp add: CreateFB_def device_defs after_create_def AddFB2_of_def buffer_size_def Let_def
           case_prod_beta)

lemma CreateFB_succeeds:
  assumes "create_dumb k buf = Some hnd" "add_fb2 k buf = Some f" "map_dumb k buf = Some off"
    "mmap_ret k buf \<noteq> MAP_FAILED"
    "buf < length (sys_handle s)" "buf < length (sys_fb s)" "buf < length (sys_map s)"
  shows "CreateFB k buf s d =
           (drvSuccess, (after_create k buf s hnd)\<lparr> sys_fb := (sys_fb s)[buf := f],
                                                      sys_map := (sys_map s)[buf := mmap_ret k buf] \<rparr>,
            d\<lparr> dumb_buffers := add_mset hnd (dumb_buffers d),
               framebuffers := add_mset f (framebuffers d),
               mappings := add_mset (mmap_ret k buf, buffer_size k s) (mappings d),
               calls := calls d @ [CREATE_DUMB (sys_width s) (snd (CreateFB_layout s)) 32,
                                    AddFB2_of (after_create k buf s hnd) hnd,
                                    MAP_DUMB hnd, Mmap (buffer_size k s) off] \<rparr>)"
  using assms
  by (simp add: CreateFB_def device_defs after_create_def AddFB2_of_def buffer_size_def Let_def
           case_prod_beta)

lemma held_simps [simp]:
  "held (d\<lparr> calls := cs \<rparr>) = held d"
  by (simp add: held_def)

lemma buffer_size_cong:
  assumes "sys_width a = sys_width b" "sys_height a = sys_height b"
    "sys_drm_fourcc a = sys_drm_fourcc b"
  shows "buffer_size k a = buffer_size k b"
  using assms by (simp add: buffer_size_def CreateFB_layout_def Let_def)

lemma after_create_fields [simp]:
  "sys_handle (after_create k buf s hnd) = (sys_handle s)[buf := hnd]"
  "sys_fb (after_create k buf s hnd) = sys_fb s"
  "sys_map (after_create k buf s hnd) = sys_map s"
  "sys_size (after_create k buf s hnd) = buffer_size k s"
  "sys_width (after_create k buf s hnd) = sys_width s"
  "sys_height (after_create k buf s hnd) = sys_height s"
  "sys_drm_fourcc (after_create k buf s hnd) = sys_drm_fourcc s"
  "sys_picture (after_create k buf s hnd) = sys_picture s"
  "sys_front_buf (after_create k buf s hnd) = sys_front_buf s"
  "length (sys_offsets (after_create k buf s hnd)) = length (sys_offsets s)"
  by (simp_all add: after_create_def)

lemma after_failed_create_fields [simp]:
  "sys_handle (after_failed_create buf s) = (sys_handle s)[buf := 0]"
  "sys_fb (after_failed_create buf s) = sys_fb s"
  "sys_map (after_failed_create buf s) = sys_map s"
  "sys_size (after_failed_create buf s) = 0"
  by (simp_all add: after_failed_create_def)

lemma after_CreateFB_fields [simp]:
  "sys_handle (after_CreateFB k buf s) = (sys_handle s)[buf := the (create_dumb k buf)]"
  "sys_fb (after_CreateFB k buf s) = (sys_fb s)[buf := the (add_fb2 k buf)]"
  "sys_map (after_CreateFB k buf s) = (sys_map s)[buf := mmap_ret k buf]"
  "sys_size (after_CreateFB k buf s) = buffer_size k s"
  "sys_width (after_CreateFB k buf s) = sys_width s"
  "sys_height (after_CreateFB k buf s) = sys_height s"
  "sys_drm_fourcc (after_CreateFB k buf s) = sys_drm_fourcc s"
  "sys_picture (after_CreateFB k buf s) = sys_picture s"
  "sys_front_buf (after_CreateFB k buf s) = sys_front_buf s"
  "length (sys_offsets (after_CreateFB k buf s)) = length (sys_offsets s)"
  by (simp_all add: after_CreateFB_def)

lemma buffer_size_after_CreateFB [simp]:
  "buffer_size k (after_CreateFB k' buf s) = buffer_size k s"
  by (rule buffer_size_cong) simp_all

lemma CreateFB_failure_summary:
  assumes "\<not> buffer_ok k buf" "sys_arrays s" "buf < MAXHWBUF" "create_dumb k buf \<noteq> None"
  shows "fst (CreateFB k buf s d) = drvFail
       \<and> held (snd (snd (CreateFB k buf s d))) = held d
       \<and> sys_arrays (fst (snd (CreateFB k buf s d)))
       \<and> take buf (sys_handle (fst (snd (CreateFB k buf s d)))) = take buf (sys_handle s)
       \<and> take buf (sys_fb (fst (snd (CreateFB k buf s d)))) = take buf (sys_fb s)
       \<and> take buf (sys_map (fst (snd (CreateFB k buf s d)))) = take buf (sys_map s)
       \<and> (sys_size (fst (snd (CreateFB k buf s d))) = sys_size s
          \<or> sys_size (fst (snd (CreateFB k buf s d))) = buffer_size k s)"
proof -
  from assms(2,3) have len: "buf < length (sys_handle s)" "buf < length (sys_fb s)"
    "buf < length (sys_map s)"
    by (simp_all add: sys_arrays_def)
  show ?thesis
  proof (cases "create_dumb k buf")
    case None
    with assms(4) show ?thesis by simp
  next
    case (Some hnd)
    show ?thesis
    proof (cases "add_fb2 k buf")
      case None
      from assms(2) show ?thesis
        by (simp add: CreateFB_addfb_fails [OF Some None len(1)] sys_arrays_def)
    next
      case f: (Some f)
      show ?thesis
      proof (cases "map_dumb k buf")
        case None
        from assms(2) show ?thesis
          by (simp add: CreateFB_map_dumb_fails [OF Some f None len(1,2)] sys_arrays_def)
      next
        case off: (Some off)
        from assms(1) Some f off have failed: "mmap_ret k buf = MAP_FAILED"
          by (simp add: buffer_ok_def)
        from assms(2) show ?thesis
          by (simp add: CreateFB_mmap_fails [OF Some f off failed len] sys_arrays_def)
      qed
    qed
  qed
qed

lemma CreateFB_success_summary:
  assumes "buffer_ok k buf" "sys_arrays s" "buf < MAXHWBUF"
  shows "fst (CreateFB k buf s d) = drvSuccess
       \<and> fst (snd (CreateFB k buf s d)) = after_CreateFB k buf s
       \<and> dumb_buffers (snd (snd (CreateFB k buf s d)))
            = add_mset (the (create_dumb k buf)) (dumb_buffers d)
       \<and> framebuffers (snd (snd (CreateFB k buf s d)))
            = add_mset (the (add_fb2 k buf)) (framebuffers d)
       \<and> mappings (snd (snd (CreateFB k buf s d)))
            = add_mset (mmap_ret k buf, buffer_size k s) (mappings d)
       \<and> filter is_release (new_calls d (snd (snd (CreateFB k buf s d)))) = []"
proof -
  from assms(2,3) have len: "buf < length (sys_handle s)" "buf < length (sys_fb s)"
    "buf < length (sys_map s)"
    by (simp_all add: sys_arrays_def)
  from assms(1) obtain hnd f off where ok: "create_dumb k buf = Some hnd" "add_fb2 k buf = Some f"
    "map_dumb k buf = Some off" "mmap_ret k buf \<noteq> MAP_FAILED"
    by (auto simp: buffer_ok_def)
  show ?thesis
    by (simp add: CreateFB_succeeds [OF ok len] after_CreateFB_def ok new_calls_def AddFB2_of_def
          case_prod_beta)
qed

lemma CreateFB_success_calls:
  assumes "buffer_ok k buf" "sys_arrays s" "buf < MAXHWBUF"
  shows "\<exists>cs. calls (snd (snd (CreateFB k buf s d))) = calls d @ cs \<and> filter is_release cs = []"
proof -
  from assms(2,3) have len: "buf < length (sys_handle s)" "buf < length (sys_fb s)"
    "buf < length (sys_map s)"
    by (simp_all add: sys_arrays_def)
  from assms(1) obtain hnd f off where ok: "create_dumb k buf = Some hnd" "add_fb2 k buf = Some f"
    "map_dumb k buf = Some off" "mmap_ret k buf \<noteq> MAP_FAILED"
    by (auto simp: buffer_ok_def)
  show ?thesis
    by (simp add: CreateFB_succeeds [OF ok len] AddFB2_of_def case_prod_beta)
qed

lemma sys_arrays_calloc: "sys_arrays calloc_sys"
  by (simp add: sys_arrays_def calloc_sys_def)

text \<open>
  C3. When CREATE_DUMB succeeded for buffer \<open>buf\<close> and the framebuffer object cannot
  be bound, or the mapping cannot be made (MAP_DUMB or \<^verbatim>\<open>mmap\<close> fails),
  \<^verbatim>\<open>CreateFB\<close> returns \<^verbatim>\<open>drvFail\<close> and the device holds exactly what it held
  before the call. The releases it made are, in this order, the removal of the
  framebuffer object (when it had been bound) and the destruction of the dumb
  buffer, which is the last call made; nothing was mapped, so nothing is unmapped.
\<close>

theorem CreateFB_failure_unwinds:
  assumes "create_dumb k buf = Some hnd"
      and "add_fb2 k buf = None \<or> map_dumb k buf = None \<or> mmap_ret k buf = MAP_FAILED"
      and "sys_arrays s" and "buf < MAXHWBUF"
  shows "fst (CreateFB k buf s d) = drvFail
       \<and> held (snd (snd (CreateFB k buf s d))) = held d
       \<and> filter is_release (new_calls d (snd (snd (CreateFB k buf s d))))
           = (case add_fb2 k buf of
                None \<Rightarrow> [DESTROY_DUMB hnd]
              | Some f \<Rightarrow> [RmFB f, DESTROY_DUMB hnd])
       \<and> last (calls (snd (snd (CreateFB k buf s d)))) = DESTROY_DUMB hnd"
proof -
  from assms(3,4) have len: "buf < length (sys_handle s)" "buf < length (sys_fb s)"
    "buf < length (sys_map s)"
    by (simp_all add: sys_arrays_def)
  show ?thesis
  proof (cases "add_fb2 k buf")
    case None
    show ?thesis
      by (simp add: CreateFB_addfb_fails [OF assms(1) None len(1)] None new_calls_def
            AddFB2_of_def case_prod_beta)
  next
    case f: (Some f)
    show ?thesis
    proof (cases "map_dumb k buf")
      case None
      show ?thesis
        by (simp add: CreateFB_map_dumb_fails [OF assms(1) f None len(1,2)] f new_calls_def
              AddFB2_of_def case_prod_beta)
    next
      case off: (Some off)
      from assms(2) f off have failed: "mmap_ret k buf = MAP_FAILED"
        by simp
      show ?thesis
        by (simp add: CreateFB_mmap_fails [OF assms(1) f off failed len] f new_calls_def
              AddFB2_of_def case_prod_beta)
    qed
  qed
qed

text \<open>
  The theorem for buffer 0 on a kernel whose MAP_DUMB fails.
\<close>

theorem CreateFB_failure_unwinds_witness:
  "fst (CreateFB (working_kernel\<lparr> map_dumb := (\<lambda>buf. None) \<rparr>) 0 calloc_sys fresh_device) = drvFail
   \<and> held (snd (snd (CreateFB (working_kernel\<lparr> map_dumb := (\<lambda>buf. None) \<rparr>) 0 calloc_sys
                        fresh_device)))
       = held fresh_device
   \<and> filter is_release
        (new_calls fresh_device
           (snd (snd (CreateFB (working_kernel\<lparr> map_dumb := (\<lambda>buf. None) \<rparr>) 0 calloc_sys
                        fresh_device))))
       = [RmFB 100, DESTROY_DUMB 1]
   \<and> last (calls (snd (snd (CreateFB (working_kernel\<lparr> map_dumb := (\<lambda>buf. None) \<rparr>) 0 calloc_sys
                               fresh_device))))
       = DESTROY_DUMB 1"
proof -
  let ?k = "working_kernel\<lparr> map_dumb := (\<lambda>buf. None) \<rparr>"
  have h1: "create_dumb ?k 0 = Some 1"
    by (simp add: working_kernel_def)
  have h2: "add_fb2 ?k 0 = None \<or> map_dumb ?k 0 = None \<or> mmap_ret ?k 0 = MAP_FAILED"
    by simp
  have h3: "sys_arrays calloc_sys"
    by (rule sys_arrays_calloc)
  have h4: "0 < MAXHWBUF"
    by (simp add: MAXHWBUF_def)
  have f: "add_fb2 ?k 0 = Some 100"
    by (simp add: working_kernel_def)
  from CreateFB_failure_unwinds [OF h1 h2 h3 h4, of fresh_device] show ?thesis
    by (simp add: working_kernel_def)
qed

section \<open>The layout of a buffer\<close>

lemma vlc_align_ge: "0 < a \<Longrightarrow> v \<le> vlc_align v a"
proof -
  assume a: "0 < a"
  have "v + (a - 1) < ((v + (a - 1)) div a) * a + a"
    using a by (metis add.commute mod_less_divisor mult.commute mult_div_mod_eq nat_add_left_cancel_less)
  with a show ?thesis
    by (simp add: vlc_align_def)
qed

lemma unat_of_nat_u32: "n < 2 ^ 32 \<Longrightarrow> unat (of_nat n :: u32) = n"
  by (simp add: unat_of_nat)

lemma unat_times:
  fixes w :: u32
  assumes "unat w * n < 2 ^ 32" "n < 2 ^ 32"
  shows "unat (w * of_nat n) = unat w * n"
proof -
  have "unat (of_nat n :: u32) = n" by (rule unat_of_nat_u32 [OF assms(2)])
  moreover from assms(1) this have "unat w * unat (of_nat n :: u32) < 2 ^ LENGTH(32)"
    by simp
  ultimately show ?thesis
    using unat_mult_lem [of w "of_nat n :: u32"] by simp
qed

lemma layout_default:
  assumes "family_of (sys_drm_fourcc s) = Default_layout"
    "vlc_align (unat (sys_width s) * 4) 512 < 2 ^ 32" "vlc_align (unat (sys_height s)) 16 < 2 ^ 32"
  shows "unat (sys_stride (fst (CreateFB_layout s))) = vlc_align (unat (sys_width s) * 4) 512"
    and "sys_offsets (fst (CreateFB_layout s)) = sys_offsets s"
    and "unat (snd (CreateFB_layout s)) = vlc_align (unat (sys_height s)) 16"
proof -
  from assms(1) have fam: "sys_drm_fourcc s \<noteq> DRM_FORMAT_P010" "sys_drm_fourcc s \<noteq> DRM_FORMAT_P012"
    "sys_drm_fourcc s \<noteq> DRM_FORMAT_P016" "sys_drm_fourcc s \<noteq> DRM_FORMAT_NV12"
    by (auto simp: family_of_def split: if_splits)
  have "unat (sys_width s) * 4 \<le> vlc_align (unat (sys_width s) * 4) 512"
    by (rule vlc_align_ge) simp
  with assms(2) have "unat (sys_width s) * 4 < 2 ^ 32" by simp
  from unat_times [OF this] have w: "unat (sys_width s * 4) = unat (sys_width s) * 4" by simp
  from fam w assms(2) show "unat (sys_stride (fst (CreateFB_layout s))) = vlc_align (unat (sys_width s) * 4) 512"
    by (simp add: CreateFB_layout_def tile_width_def unat_of_nat_u32)
  from fam show "sys_offsets (fst (CreateFB_layout s)) = sys_offsets s"
    by (simp add: CreateFB_layout_def)
  from fam assms(3) show "unat (snd (CreateFB_layout s)) = vlc_align (unat (sys_height s)) 16"
    by (simp add: CreateFB_layout_def tile_height_def unat_of_nat_u32)
qed

lemma layout_NV12:
  assumes "family_of (sys_drm_fourcc s) = NV12_layout"
    "vlc_align (unat (sys_width s)) 512 < 2 ^ 32"
    "2 * vlc_align (unat (sys_height s)) 16 < 2 ^ 32"
    "vlc_align (unat (sys_width s)) 512 * vlc_align (unat (sys_height s)) 16 < 2 ^ 32"
  shows "unat (sys_stride (fst (CreateFB_layout s))) = vlc_align (unat (sys_width s)) 512"
    and "sys_offsets (fst (CreateFB_layout s))
           = (sys_offsets s)[1 := of_nat (vlc_align (unat (sys_width s)) 512
                                          * vlc_align (unat (sys_height s)) 16)]"
    and "unat (snd (CreateFB_layout s)) = 2 * vlc_align (unat (sys_height s)) 16"
proof -
  from assms(1) have fam: "sys_drm_fourcc s \<noteq> DRM_FORMAT_P010" "sys_drm_fourcc s \<noteq> DRM_FORMAT_P012"
    "sys_drm_fourcc s \<noteq> DRM_FORMAT_P016" "sys_drm_fourcc s = DRM_FORMAT_NV12"
    by (auto simp: family_of_def split: if_splits)
  have st: "unat (of_nat (vlc_align (unat (sys_width s)) 512) :: u32) = vlc_align (unat (sys_width s)) 512"
    by (rule unat_of_nat_u32 [OF assms(2)])
  from fam st show "unat (sys_stride (fst (CreateFB_layout s))) = vlc_align (unat (sys_width s)) 512"
    by (simp add: CreateFB_layout_def tile_width_def Let_def)
  from fam st show "sys_offsets (fst (CreateFB_layout s))
           = (sys_offsets s)[1 := of_nat (vlc_align (unat (sys_width s)) 512
                                          * vlc_align (unat (sys_height s)) 16)]"
    by (simp add: CreateFB_layout_def tile_width_def tile_height_def Let_def)
  have hh: "unat (of_nat (2 * vlc_align (unat (sys_height s)) 16) :: u32)
      = 2 * vlc_align (unat (sys_height s)) 16"
    by (rule unat_of_nat_u32 [OF assms(3)])
  from fam hh show "unat (snd (CreateFB_layout s)) = 2 * vlc_align (unat (sys_height s)) 16"
    by (auto simp add: CreateFB_layout_def tile_height_def Let_def simp del: of_nat_mult)
qed

lemma layout_P01x:
  assumes "family_of (sys_drm_fourcc s) = P01x_layout"
    "vlc_align (unat (sys_width s) * 2) 512 < 2 ^ 32"
    "2 * vlc_align (unat (sys_height s)) 16 < 2 ^ 32"
    "vlc_align (unat (sys_width s) * 2) 512 * vlc_align (unat (sys_height s)) 16 < 2 ^ 32"
  shows "unat (sys_stride (fst (CreateFB_layout s))) = vlc_align (unat (sys_width s) * 2) 512"
    and "sys_offsets (fst (CreateFB_layout s))
           = (sys_offsets s)[1 := of_nat (vlc_align (unat (sys_width s) * 2) 512
                                          * vlc_align (unat (sys_height s)) 16)]"
    and "unat (snd (CreateFB_layout s)) = 2 * vlc_align (unat (sys_height s)) 16"
proof -
  from assms(1) have fam: "sys_drm_fourcc s = DRM_FORMAT_P010 \<or> sys_drm_fourcc s = DRM_FORMAT_P012
    \<or> sys_drm_fourcc s = DRM_FORMAT_P016"
    by (auto simp: family_of_def split: if_splits)
  have "unat (sys_width s) * 2 \<le> vlc_align (unat (sys_width s) * 2) 512"
    by (rule vlc_align_ge) simp
  with assms(2) have "unat (sys_width s) * 2 < 2 ^ 32" by simp
  from unat_times [OF this] have w: "unat (sys_width s * 2) = unat (sys_width s) * 2" by simp
  have st: "unat (of_nat (vlc_align (unat (sys_width s) * 2) 512) :: u32)
      = vlc_align (unat (sys_width s) * 2) 512"
    by (rule unat_of_nat_u32 [OF assms(2)])
  from fam st w show "unat (sys_stride (fst (CreateFB_layout s))) = vlc_align (unat (sys_width s) * 2) 512"
    by (simp add: CreateFB_layout_def tile_width_def Let_def)
  from fam st w show "sys_offsets (fst (CreateFB_layout s))
           = (sys_offsets s)[1 := of_nat (vlc_align (unat (sys_width s) * 2) 512
                                          * vlc_align (unat (sys_height s)) 16)]"
    by (simp add: CreateFB_layout_def tile_width_def tile_height_def Let_def)
  have hh: "unat (of_nat (2 * vlc_align (unat (sys_height s)) 16) :: u32)
      = 2 * vlc_align (unat (sys_height s)) 16"
    by (rule unat_of_nat_u32 [OF assms(3)])
  from fam hh show "unat (snd (CreateFB_layout s)) = 2 * vlc_align (unat (sys_height s)) 16"
    by (auto simp add: CreateFB_layout_def tile_height_def Let_def simp del: of_nat_mult)
qed

lemma CreateFB_layout_refines:
  assumes "spec_strideBytes (family_of (sys_drm_fourcc s)) (unat (sys_width s)) < 2 ^ 32"
      and "spec_allocHeight (family_of (sys_drm_fourcc s)) (unat (sys_height s)) < 2 ^ 32"
      and "spec_chromaOffset (family_of (sys_drm_fourcc s)) (unat (sys_width s))
             (unat (sys_height s)) < 2 ^ 32"
  shows "unat (sys_stride (fst (CreateFB_layout s)))
           = spec_strideBytes (family_of (sys_drm_fourcc s)) (unat (sys_width s))
       \<and> sys_offsets (fst (CreateFB_layout s))
           = (case family_of (sys_drm_fourcc s) of
                Default_layout \<Rightarrow> sys_offsets s
              | _ \<Rightarrow> (sys_offsets s)
                       [1 := of_nat (spec_chromaOffset (family_of (sys_drm_fourcc s))
                                       (unat (sys_width s)) (unat (sys_height s)))])
       \<and> unat (snd (CreateFB_layout s))
           = spec_allocHeight (family_of (sys_drm_fourcc s)) (unat (sys_height s))"
proof (cases "family_of (sys_drm_fourcc s)")
  case Default_layout
  with assms layout_default [OF Default_layout] show ?thesis
    by (simp add: spec_strideBytes_def spec_allocHeight_def spec_chromaOffset_def)
next
  case NV12_layout
  with assms layout_NV12 [OF NV12_layout] show ?thesis
    by (simp add: spec_strideBytes_def spec_allocHeight_def spec_chromaOffset_def)
next
  case P01x_layout
  with assms layout_P01x [OF P01x_layout] show ?thesis
    by (simp add: spec_strideBytes_def spec_allocHeight_def spec_chromaOffset_def)
qed

lemma CreateFB_keeps_layout:
  assumes "sys_arrays s" "buf < MAXHWBUF"
  shows "sys_stride (fst (snd (CreateFB k buf s d))) = sys_stride (fst (CreateFB_layout s))
       \<and> sys_offsets (fst (snd (CreateFB k buf s d))) = sys_offsets (fst (CreateFB_layout s))
       \<and> hd (new_calls d (snd (snd (CreateFB k buf s d))))
           = CREATE_DUMB (sys_width s) (snd (CreateFB_layout s)) 32"
proof -
  from assms have len: "buf < length (sys_handle s)" "buf < length (sys_fb s)"
    "buf < length (sys_map s)"
    by (simp_all add: sys_arrays_def)
  show ?thesis
  proof (cases "create_dumb k buf")
    case None
    show ?thesis
    proof (cases "add_fb2 k buf")
      case f: None
      show ?thesis
        by (simp add: CreateFB_create_and_addfb_fail [OF None f len(1)] new_calls_def
              after_failed_create_def)
    next
      case f: (Some f)
      show ?thesis
      proof (cases "map_dumb k buf")
        case m: None
        from None f m show ?thesis
          by (simp add: CreateFB_def device_defs case_prod_beta Let_def new_calls_def)
      next
        case m: (Some off)
        from None f m show ?thesis
          by (simp add: CreateFB_def device_defs case_prod_beta Let_def new_calls_def)
      qed
    qed
  next
    case (Some hnd)
    show ?thesis
    proof (cases "add_fb2 k buf")
      case None
      show ?thesis
        by (simp add: CreateFB_addfb_fails [OF Some None len(1)] new_calls_def after_create_def)
    next
      case f: (Some f)
      show ?thesis
      proof (cases "map_dumb k buf")
        case None
        show ?thesis
          by (simp add: CreateFB_map_dumb_fails [OF Some f None len(1,2)] new_calls_def
                after_create_def)
      next
        case off: (Some off)
        show ?thesis
        proof (cases "mmap_ret k buf = MAP_FAILED")
          case True
          show ?thesis
            by (simp add: CreateFB_mmap_fails [OF Some f off True len] new_calls_def
                  after_create_def)
        next
          case False
          show ?thesis
            by (simp add: CreateFB_succeeds [OF Some f off False len] new_calls_def
                  after_create_def)
        qed
      qed
    qed
  qed
qed

text \<open>
  C7. For the sizes that fit: when the stride, the allocation height and the
  offset of the second plane that the specification gives for the format's family
  are below \<open>2^32\<close>, \<^verbatim>\<open>CreateFB\<close> computes exactly them: \<^verbatim>\<open>sys->stride\<close> is the
  specified stride; \<^verbatim>\<open>sys->offsets\<close> is left as it was for the default layout (all
  zero after \<^verbatim>\<open>calloc\<close>: one plane at offset 0) and gets the specified offset at
  index 1 for the two-plane layouts; and the first call made is CREATE_DUMB with
  the width, the specified allocation height and 32 bits per pixel.
\<close>

theorem CreateFB_layout_as_specified:
  assumes "spec_strideBytes (family_of (sys_drm_fourcc s)) (unat (sys_width s)) < 2 ^ 32"
      and "spec_allocHeight (family_of (sys_drm_fourcc s)) (unat (sys_height s)) < 2 ^ 32"
      and "spec_chromaOffset (family_of (sys_drm_fourcc s)) (unat (sys_width s))
             (unat (sys_height s)) < 2 ^ 32"
      and "sys_arrays s" and "buf < MAXHWBUF"
  shows "unat (sys_stride (fst (snd (CreateFB k buf s d))))
           = spec_strideBytes (family_of (sys_drm_fourcc s)) (unat (sys_width s))
       \<and> sys_offsets (fst (snd (CreateFB k buf s d)))
           = (case family_of (sys_drm_fourcc s) of
                Default_layout \<Rightarrow> sys_offsets s
              | _ \<Rightarrow> (sys_offsets s)
                       [1 := of_nat (spec_chromaOffset (family_of (sys_drm_fourcc s))
                                       (unat (sys_width s)) (unat (sys_height s)))])
       \<and> (case hd (new_calls d (snd (snd (CreateFB k buf s d)))) of
            CREATE_DUMB w h bpp \<Rightarrow>
              w = sys_width s \<and> bpp = 32
              \<and> unat h = spec_allocHeight (family_of (sys_drm_fourcc s)) (unat (sys_height s))
          | _ \<Rightarrow> False)"
  using CreateFB_layout_refines [OF assms(1-3)] CreateFB_keeps_layout [OF assms(4,5), of k d]
  by simp

text \<open>
  The theorem for a 640 by 480 NV12 buffer: stride 1024, second plane at 491520, 960 rows.
\<close>

theorem CreateFB_layout_as_specified_witness:
  "unat (sys_stride (fst (snd (CreateFB working_kernel 0
           (calloc_sys\<lparr> sys_width := 640, sys_height := 480, sys_drm_fourcc := DRM_FORMAT_NV12 \<rparr>)
           fresh_device)))) = 1024
   \<and> sys_offsets (fst (snd (CreateFB working_kernel 0
           (calloc_sys\<lparr> sys_width := 640, sys_height := 480, sys_drm_fourcc := DRM_FORMAT_NV12 \<rparr>)
           fresh_device))) = (replicate PICTURE_PLANE_MAX 0)[1 := 491520]
   \<and> (case hd (new_calls fresh_device (snd (snd (CreateFB working_kernel 0
           (calloc_sys\<lparr> sys_width := 640, sys_height := 480, sys_drm_fourcc := DRM_FORMAT_NV12 \<rparr>)
           fresh_device)))) of
          CREATE_DUMB w h bpp \<Rightarrow> w = 640 \<and> bpp = 32 \<and> unat h = 960
        | _ \<Rightarrow> False)"
proof -
  let ?s = "calloc_sys\<lparr> sys_width := 640, sys_height := 480, sys_drm_fourcc := DRM_FORMAT_NV12 \<rparr>"
  have fam: "family_of (sys_drm_fourcc ?s) = NV12_layout"
    by (simp add: family_of_def fourcc_defs)
  have h1: "spec_strideBytes (family_of (sys_drm_fourcc ?s)) (unat (sys_width ?s)) < 2 ^ 32"
    unfolding fam by (simp add: spec_strideBytes_def vlc_align_def)
  have h2: "spec_allocHeight (family_of (sys_drm_fourcc ?s)) (unat (sys_height ?s)) < 2 ^ 32"
    unfolding fam by (simp add: spec_allocHeight_def vlc_align_def)
  have h3: "spec_chromaOffset (family_of (sys_drm_fourcc ?s)) (unat (sys_width ?s))
              (unat (sys_height ?s)) < 2 ^ 32"
    unfolding fam by (simp add: spec_chromaOffset_def spec_strideBytes_def vlc_align_def)
  have h4: "sys_arrays ?s"
    by (simp add: sys_arrays_def calloc_sys_def)
  have h5: "0 < MAXHWBUF"
    by (simp add: MAXHWBUF_def)
  note t = CreateFB_layout_as_specified [OF h1 h2 h3 h4 h5, of working_kernel fresh_device,
      unfolded fam]
  have v: "spec_strideBytes NV12_layout 640 = 1024"
    "spec_chromaOffset NV12_layout 640 480 = 491520"
    "spec_allocHeight NV12_layout 480 = 960"
    by (simp_all add: spec_strideBytes_def spec_chromaOffset_def spec_allocHeight_def vlc_align_def)
  have off: "sys_offsets calloc_sys = replicate PICTURE_PLANE_MAX 0"
    by (simp add: calloc_sys_def)
  from t show ?thesis
    by (auto simp add: v off split: drm_call.splits)
qed

text \<open>
  C7 as it is stated, for every width, fails: the fields are 32 bits wide. For
  the default layout and a width of \<open>2^30\<close>, \<^verbatim>\<open>sys->width*4\<close> wraps to 0 and the
  stride is 0, where the specification asks for \<open>2^32\<close>.
\<close>

theorem CreateFB_layout_wraps_counterexample:
  "unat (sys_stride (fst (CreateFB_layout
      (calloc_sys\<lparr> sys_width := 2 ^ 30, sys_height := 16,
                   sys_drm_fourcc := DRM_FORMAT_XRGB8888 \<rparr>)))) = 0
   \<and> family_of DRM_FORMAT_XRGB8888 = Default_layout
   \<and> spec_strideBytes Default_layout (unat (2 ^ 30 :: u32)) = 2 ^ 32"
  by (simp add: CreateFB_layout_def calloc_sys_def family_of_def spec_strideBytes_def
        vlc_align_def tile_width_def fourcc_defs)

section \<open>The loop that builds the ring\<close>

lemma DestroyFB_range_Suc:
  "DestroyFB_range 0 (Suc c) s d = DestroyFB c s (DestroyFB_range 0 c s d)"
  by (simp add: DestroyFB_range_def)

lemma DestroyFB_range_held:
  assumes "c \<le> MAXHWBUF" "sys_arrays s"
  shows "dumb_buffers (DestroyFB_range 0 c s d) = dumb_buffers d - mset (take c (sys_handle s))
       \<and> framebuffers (DestroyFB_range 0 c s d) = framebuffers d - mset (take c (sys_fb s))
       \<and> mappings (DestroyFB_range 0 c s d)
           = mappings d - mset (map (\<lambda>a. (a, sys_size s)) (take c (sys_map s)))"
  using assms
proof (induction c)
  case 0
  then show ?case by (simp add: DestroyFB_range_def)
next
  case (Suc c)
  then have c: "c < length (sys_handle s)" "c < length (sys_fb s)" "c < length (sys_map s)"
    by (simp_all add: sys_arrays_def)
  from Suc have IH: "dumb_buffers (DestroyFB_range 0 c s d) = dumb_buffers d - mset (take c (sys_handle s))"
    "framebuffers (DestroyFB_range 0 c s d) = framebuffers d - mset (take c (sys_fb s))"
    "mappings (DestroyFB_range 0 c s d)
           = mappings d - mset (map (\<lambda>a. (a, sys_size s)) (take c (sys_map s)))"
    by simp_all
  show ?case
    by (simp add: DestroyFB_range_Suc DestroyFB_def device_defs IH take_Suc_conv_app_nth c)
qed

lemma built_after_CreateFB:
  assumes "built k c s d base" "c < MAXHWBUF" "buffer_ok k c"
  shows "built k (Suc c) (fst (snd (CreateFB k c s d))) (snd (snd (CreateFB k c s d))) base"
proof -
  from assms(1) have arr: "sys_arrays s" by (simp add: built_def)
  then have c: "c < length (sys_handle s)" "c < length (sys_fb s)" "c < length (sys_map s)"
    using assms(2) by (simp_all add: sys_arrays_def)
  note ok = CreateFB_success_summary [OF assms(3) arr assms(2), of d]
  from assms(1) ok c show ?thesis
    by (simp add: built_def sys_arrays_def take_Suc_conv_app_nth)
qed

lemma Open_buffers_failure:
  assumes "c \<le> kf" "kf < MAXHWBUF" "\<forall>b. c \<le> b \<and> b < kf \<longrightarrow> buffer_ok k b" "\<not> buffer_ok k kf"
    "built k c s d base" "create_dumb k kf \<noteq> None"
  shows "fst (Open_buffers k c s d) = drvFail \<and> held (snd (snd (Open_buffers k c s d))) = base"
  using assms
proof (induction "kf - c" arbitrary: c s d)
  case 0
  then have eq: "c = kf" by simp
  from 0 have arr: "sys_arrays s" by (simp add: built_def)
  note f = CreateFB_failure_summary [OF "0.prems"(4) arr "0.prems"(2) "0.prems"(6), of d]
  let ?s1 = "fst (snd (CreateFB k kf s d))" and ?d1 = "snd (snd (CreateFB k kf s d))"
  from f have arr1: "sys_arrays ?s1" by simp
  from "0.prems"(2) have le: "kf \<le> MAXHWBUF" by simp
  note destroy = DestroyFB_range_held [OF le arr1, of ?d1]
  from f "0.prems"(5) eq have size1: "kf = 0 \<or> sys_size ?s1 = buffer_size k s"
    by (auto simp: built_def)
  have unfold: "Open_buffers k kf s d = (drvFail, ?s1, DestroyFB_range 0 kf ?s1 ?d1)"
    using f "0.prems"(2) by (subst Open_buffers.simps) (simp add: case_prod_beta)
  have "held (DestroyFB_range 0 kf ?s1 ?d1) = base"
  proof (cases "kf = 0")
    case True
    with f "0.prems"(5) eq show ?thesis
      by (simp add: DestroyFB_range_def built_def held_def)
  next
    case False
    with size1 have sz: "sys_size ?s1 = buffer_size k s" by simp
    from f have hd: "dumb_buffers ?d1 = dumb_buffers d" "framebuffers ?d1 = framebuffers d"
      "mappings ?d1 = mappings d"
      by (simp_all add: held_def)
    from f have tk: "take kf (sys_handle ?s1) = take kf (sys_handle s)"
      "take kf (sys_fb ?s1) = take kf (sys_fb s)" "take kf (sys_map ?s1) = take kf (sys_map s)"
      by simp_all
    from "0.prems"(5) eq destroy show ?thesis
      by (simp add: held_def hd tk sz built_def)
  qed
  with unfold eq show ?case by simp
next
  case (Suc n)
  then have lt: "c < kf" and cm: "c < MAXHWBUF" by simp_all
  with Suc.prems(3) have ok: "buffer_ok k c" by simp
  from Suc.prems(5) have arr: "sys_arrays s" by (simp add: built_def)
  note succ = CreateFB_success_summary [OF ok arr cm, of d]
  let ?s1 = "fst (snd (CreateFB k c s d))" and ?d1 = "snd (snd (CreateFB k c s d))"
  have unfold: "Open_buffers k c s d = Open_buffers k (Suc c) ?s1 ?d1"
    using succ cm by (subst Open_buffers.simps) (simp add: case_prod_beta)
  have b: "built k (Suc c) ?s1 ?d1 base"
    by (rule built_after_CreateFB [OF Suc.prems(5) cm ok])
  have "fst (Open_buffers k (Suc c) ?s1 ?d1) = drvFail
        \<and> held (snd (snd (Open_buffers k (Suc c) ?s1 ?d1))) = base"
  proof (rule Suc.hyps(1))
    show "n = kf - Suc c" using Suc.hyps(2) by simp
    show "Suc c \<le> kf" using lt by simp
    show "kf < MAXHWBUF" by (rule Suc.prems(2))
    show "\<forall>b. Suc c \<le> b \<and> b < kf \<longrightarrow> buffer_ok k b" using Suc.prems(3) by simp
    show "\<not> buffer_ok k kf" by (rule Suc.prems(4))
    show "create_dumb k kf \<noteq> None" by (rule Suc.prems(6))
    show "built k (Suc c) ?s1 ?d1 base" by (rule b)
  qed
  with unfold show ?case by simp
qed

lemma recorded_after_CreateFB:
  assumes "recorded k c s" "sys_arrays s" "c < MAXHWBUF"
  shows "recorded k (Suc c) (after_CreateFB k c s)"
proof -
  from assms(2,3) have c: "c < length (sys_handle s)" "c < length (sys_fb s)"
    "c < length (sys_map s)"
    by (simp_all add: sys_arrays_def)
  from assms(1) c show ?thesis
    by (simp add: recorded_def take_Suc_conv_app_nth)
qed

lemma Open_buffers_success:
  assumes "c \<le> MAXHWBUF" "\<forall>b. c \<le> b \<and> b < MAXHWBUF \<longrightarrow> buffer_ok k b"
    "built k c s d base" "recorded k c s"
  shows "fst (Open_buffers k c s d) = drvSuccess
       \<and> built k MAXHWBUF (fst (snd (Open_buffers k c s d))) (snd (snd (Open_buffers k c s d))) base
       \<and> recorded k MAXHWBUF (fst (snd (Open_buffers k c s d)))
       \<and> sys_picture (fst (snd (Open_buffers k c s d))) = sys_picture s
       \<and> buffer_size k (fst (snd (Open_buffers k c s d))) = buffer_size k s
       \<and> (\<exists>cs. calls (snd (snd (Open_buffers k c s d))) = calls d @ cs \<and> filter is_release cs = [])"
  using assms
proof (induction "MAXHWBUF - c" arbitrary: c s d)
  case 0
  then have eq: "c = MAXHWBUF" by simp
  have "Open_buffers k c s d = (drvSuccess, s, d)"
    using eq by (subst Open_buffers.simps) simp
  with 0 eq show ?case by simp
next
  case (Suc n)
  then have cm: "c < MAXHWBUF" by simp
  with Suc.prems(2) have ok: "buffer_ok k c" by simp
  from Suc.prems(3) have arr: "sys_arrays s" by (simp add: built_def)
  note succ = CreateFB_success_summary [OF ok arr cm, of d]
  let ?s1 = "fst (snd (CreateFB k c s d))" and ?d1 = "snd (snd (CreateFB k c s d))"
  have unfold: "Open_buffers k c s d = Open_buffers k (Suc c) ?s1 ?d1"
    using succ cm by (subst Open_buffers.simps) (simp add: case_prod_beta)
  have b: "built k (Suc c) ?s1 ?d1 base"
    by (rule built_after_CreateFB [OF Suc.prems(3) cm ok])
  have r: "recorded k (Suc c) ?s1"
    using recorded_after_CreateFB [OF Suc.prems(4) arr cm] succ by simp
  have pic: "sys_picture ?s1 = sys_picture s" "buffer_size k ?s1 = buffer_size k s"
    using succ by simp_all
  from CreateFB_success_calls [OF ok arr cm, of d]
  obtain cs1 where cs1: "calls ?d1 = calls d @ cs1" "filter is_release cs1 = []" by blast
  have IH: "fst (Open_buffers k (Suc c) ?s1 ?d1) = drvSuccess
       \<and> built k MAXHWBUF (fst (snd (Open_buffers k (Suc c) ?s1 ?d1)))
            (snd (snd (Open_buffers k (Suc c) ?s1 ?d1))) base
       \<and> recorded k MAXHWBUF (fst (snd (Open_buffers k (Suc c) ?s1 ?d1)))
       \<and> sys_picture (fst (snd (Open_buffers k (Suc c) ?s1 ?d1))) = sys_picture ?s1
       \<and> buffer_size k (fst (snd (Open_buffers k (Suc c) ?s1 ?d1))) = buffer_size k ?s1
       \<and> (\<exists>cs. calls (snd (snd (Open_buffers k (Suc c) ?s1 ?d1))) = calls ?d1 @ cs
                \<and> filter is_release cs = [])"
  proof (rule Suc.hyps(1))
    show "n = MAXHWBUF - Suc c" using Suc.hyps(2) by simp
    show "Suc c \<le> MAXHWBUF" using cm by simp
    show "\<forall>b. Suc c \<le> b \<and> b < MAXHWBUF \<longrightarrow> buffer_ok k b" using Suc.prems(2) by simp
    show "built k (Suc c) ?s1 ?d1 base" by (rule b)
    show "recorded k (Suc c) ?s1" by (rule r)
  qed
  then obtain cs2 where cs2:
    "calls (snd (snd (Open_buffers k (Suc c) ?s1 ?d1))) = calls ?d1 @ cs2"
    "filter is_release cs2 = []" by blast
  have "calls (snd (snd (Open_buffers k (Suc c) ?s1 ?d1))) = calls d @ (cs1 @ cs2)
        \<and> filter is_release (cs1 @ cs2) = []"
    using cs1 cs2 by simp
  then have "\<exists>cs. calls (snd (snd (Open_buffers k (Suc c) ?s1 ?d1))) = calls d @ cs
        \<and> filter is_release cs = []" by blast
  with IH unfold pic show ?case by simp
qed

text \<open>
  The scan and the decision leave the buffer fields of \<^verbatim>\<open>sys\<close> alone.
\<close>

lemma same_buffers_refl [simp]: "same_buffers a a"
  by (simp add: same_buffers_def)

lemma same_buffers_trans: "same_buffers a b \<Longrightarrow> same_buffers b c \<Longrightarrow> same_buffers a c"
  by (simp add: same_buffers_def)

lemma scan_formats_same: "same_buffers s (fst (scan_formats pid fs (s, tbl)))"
proof (induction fs arbitrary: s tbl)
  case Nil
  show ?case by simp
next
  case (Cons f fs)
  let ?s' = "if sys_forced_drm_fourcc s \<and> sys_plane_id s = 0 \<and> f = sys_drm_fourcc s
             then s\<lparr> sys_plane_id := pid \<rparr> else s"
  have "same_buffers s ?s'" by (simp add: same_buffers_def)
  from same_buffers_trans [OF this Cons.IH [of ?s' "CheckFourCCList f pid tbl"]]
  show ?case by simp
qed

lemma scan_planes_same: "same_buffers s (fst (snd (scan_planes ci ps (s, tbl))))"
proof (induction ci ps "(s, tbl)" arbitrary: s tbl rule: scan_planes.induct)
  case (1 ci s tbl)
  show ?case by simp
next
  case (2 ci ps s tbl)
  show ?case by simp
next
  case (3 ci plane ps s tbl)
  show ?case
  proof (cases "pl_formats plane \<noteq> []")
    case False
    then show ?thesis by simp
  next
    case ne: True
    show ?thesis
    proof (cases "shl_1 ci")
      case None
      with ne show ?thesis by simp
    next
      case (Some bit_c)
      show ?thesis
      proof (cases "pl_possible_crtcs plane AND bit_c = 0")
        case True
        with ne Some "3.hyps"(1) [OF ne Some True] show ?thesis by simp
      next
        case False
        obtain s' tbl' where st: "scan_formats (pl_plane_id plane) (pl_formats plane) (s, tbl) = (s', tbl')"
          by (cases "scan_formats (pl_plane_id plane) (pl_formats plane) (s, tbl)")
        from scan_formats_same [of s "pl_plane_id plane" "pl_formats plane" tbl] st
        have a: "same_buffers s s'" by simp
        from "3.hyps"(2) [OF ne Some False st]
        have b: "same_buffers s' (fst (snd (scan_planes ci ps (s', tbl'))))" .
        from same_buffers_trans [OF a b] ne Some False st show ?thesis by simp
      qed
    qed
  qed
qed

lemma ChromaNegotiation_scan_same:
  "same_buffers s (fst (snd (ChromaNegotiation_scan h tbl s)))"
proof -
  have a: "same_buffers s (s\<lparr> sys_plane_id := 0 \<rparr>)" by (simp add: same_buffers_def)
  show ?thesis
    using same_buffers_trans [OF a scan_planes_same]
    by (auto simp: ChromaNegotiation_scan_def Let_def a split: option.splits)
qed

lemma negotiate_same: "same_buffers s (snd (negotiate isyuv tbl s))"
  by (simp add: negotiate_def family_loops_def adopt_def same_buffers_def Let_def)

lemma ChromaNegotiation_same:
  "same_buffers s (fst (snd (ChromaNegotiation h tbl s)))"
proof -
  obtain x s1 tbl1 where sc: "ChromaNegotiation_scan h tbl s = (x, s1, tbl1)"
    by (cases "ChromaNegotiation_scan h tbl s")
  from ChromaNegotiation_scan_same [of s h tbl] sc have a: "same_buffers s s1" by simp
  show ?thesis
  proof (cases x)
    case None
    from same_buffers_trans [OF a negotiate_same [of s1 "vlc_fourcc_IsYUV h" tbl1]] sc None
    show ?thesis by (simp add: ChromaNegotiation_def case_prod_beta)
  next
    case (Some e)
    with a sc show ?thesis by (simp add: ChromaNegotiation_def)
  qed
qed

lemma Open_chroma_same:
  "Open_chroma h s = Some s' \<Longrightarrow>
     sys_handle s' = sys_handle s \<and> sys_fb s' = sys_fb s \<and> sys_map s' = sys_map s
     \<and> sys_size s' = sys_size s \<and> sys_offsets s' = sys_offsets s \<and> sys_picture s' = sys_picture s"
  by (auto simp: Open_chroma_def Let_def split: option.splits if_splits)

lemma Open_sized_fields:
  assumes "Open_chroma h calloc_sys = Some s"
  shows "sys_arrays (Open_sized h tbl s)" and "sys_picture (Open_sized h tbl s) = None"
    and "sys_handle (Open_sized h tbl s) = replicate MAXHWBUF 0"
    and "sys_fb (Open_sized h tbl s) = replicate MAXHWBUF 0"
    and "sys_map (Open_sized h tbl s) = replicate MAXHWBUF 0"
    and "sys_size (Open_sized h tbl s) = 0"
proof -
  note a = Open_chroma_same [OF assms]
  note b = ChromaNegotiation_same [of s h tbl, unfolded same_buffers_def]
  from a b show "sys_arrays (Open_sized h tbl s)"
    by (simp add: Open_sized_def sys_arrays_def calloc_sys_def)
  from a b show "sys_picture (Open_sized h tbl s) = None"
    by (simp add: Open_sized_def calloc_sys_def)
  from a b show "sys_handle (Open_sized h tbl s) = replicate MAXHWBUF 0"
    by (simp add: Open_sized_def calloc_sys_def)
  from a b show "sys_fb (Open_sized h tbl s) = replicate MAXHWBUF 0"
    by (simp add: Open_sized_def calloc_sys_def)
  from a b show "sys_map (Open_sized h tbl s) = replicate MAXHWBUF 0"
    by (simp add: Open_sized_def calloc_sys_def)
  from a b show "sys_size (Open_sized h tbl s) = 0"
    by (simp add: Open_sized_def calloc_sys_def)
qed

lemma Open_negotiated:
  assumes "window_is_kms h" "calloc_ok h" "Open_chroma h calloc_sys = Some s"
    "fst (ChromaNegotiation h tbl s) = Negotiated"
  shows "Open h k tbl d =
    (if fst (Open_buffers k 0 (Open_sized h tbl s) d) \<noteq> drvSuccess
     then (CreateFB_failed (fst (Open_buffers k 0 (Open_sized h tbl s) d)),
           Some (fst (snd (Open_buffers k 0 (Open_sized h tbl s) d))),
           snd (snd (ChromaNegotiation h tbl s)),
           snd (snd (Open_buffers k 0 (Open_sized h tbl s) d)))
     else if \<not> picture_new_ok h
     then (VLC_EGENERIC,
           Some (fst (snd (Open_buffers k 0 (Open_sized h tbl s) d))),
           snd (snd (ChromaNegotiation h tbl s)),
           snd (snd (Open_buffers k 0 (Open_sized h tbl s) d)))
     else (VLC_SUCCESS,
           Some ((fst (snd (Open_buffers k 0 (Open_sized h tbl s) d)))
                  \<lparr> sys_picture :=
                      Some (Open_picture (fst (snd (Open_buffers k 0 (Open_sized h tbl s) d)))) \<rparr>),
           snd (snd (ChromaNegotiation h tbl s)),
           snd (snd (Open_buffers k 0 (Open_sized h tbl s) d))))"
  using assms by (simp add: Open_def Open_sized_def case_prod_beta Let_def)

lemma built_0:
  "sys_arrays s \<Longrightarrow> built k 0 s d (held d)"
  by (simp add: built_def held_def)

lemma recorded_0: "recorded k 0 s"
  by (simp add: recorded_def)

lemma nv12_host_setup:
  "window_is_kms nv12_host" "calloc_ok nv12_host"
  "Open_chroma nv12_host calloc_sys = Some (calloc_sys\<lparr> sys_vlc_fourcc := VLC_CODEC_NV12 \<rparr>)"
  "fst (ChromaNegotiation nv12_host fourccmatching (calloc_sys\<lparr> sys_vlc_fourcc := VLC_CODEC_NV12 \<rparr>))
     = Negotiated"
  by (simp_all add: nv12_host_def negotiation_defs for_c.simps fourcc_defs)

lemma working_kernel_buffer_ok: "buf < 3 \<Longrightarrow> buffer_ok working_kernel buf"
proof -
  assume "buf < 3"
  then consider "buf = 0" | "buf = 1" | "buf = 2" by linarith
  then show ?thesis
    by cases (simp_all add: buffer_ok_def working_kernel_def MAP_FAILED_def)
qed

text \<open>
  A failure that \<^verbatim>\<open>CreateFB\<close> detects is unwound by \<^verbatim>\<open>Open\<close>. \<^verbatim>\<open>Open\<close> has reached
  its loop (KMS window, \<^verbatim>\<open>sys\<close> allocated, negotiation succeeded). When every call
  for the buffers below \<open>kf\<close> succeeds and, for buffer \<open>kf\<close>, CREATE_DUMB succeeds
  and a later call fails, \<^verbatim>\<open>Open\<close> returns the \<^verbatim>\<open>drvFail\<close> of \<^verbatim>\<open>CreateFB\<close> and the
  device holds exactly what it held before \<^verbatim>\<open>Open\<close>.
\<close>

lemma Open_detected_failure_unwinds:
  assumes "window_is_kms h" and "calloc_ok h" and "Open_chroma h calloc_sys = Some s"
      and "fst (ChromaNegotiation h tbl s) = Negotiated"
      and "kf < MAXHWBUF" and "\<forall>b<kf. buffer_ok k b" and "\<not> buffer_ok k kf"
      and "create_dumb k kf \<noteq> None"
  shows "fst (Open h k tbl d) = CreateFB_failed drvFail
       \<and> held (snd (snd (snd (Open h k tbl d)))) = held d"
proof -
  have b: "built k 0 (Open_sized h tbl s) d (held d)"
    by (rule built_0) (rule Open_sized_fields(1) [OF assms(3)])
  have pre: "\<forall>b. 0 \<le> b \<and> b < kf \<longrightarrow> buffer_ok k b"
    using assms(6) by simp
  from Open_buffers_failure [OF _ assms(5) pre assms(7) b assms(8)]
  have "fst (Open_buffers k 0 (Open_sized h tbl s) d) = drvFail
      \<and> held (snd (snd (Open_buffers k 0 (Open_sized h tbl s) d))) = held d"
    by simp
  then show ?thesis
    by (simp add: Open_negotiated [OF assms(1-4)])
qed

lemma nv12_host_sized:
  "Open_sized nv12_host fourccmatching (calloc_sys\<lparr> sys_vlc_fourcc := VLC_CODEC_NV12 \<rparr>)
     = calloc_sys\<lparr> sys_vlc_fourcc := VLC_CODEC_NV12, sys_drm_fourcc := DRM_FORMAT_NV12,
                   sys_plane_id := 31, sys_width := 640, sys_height := 480 \<rparr>"
  by (simp add: Open_sized_def nv12_host_def negotiation_defs for_c.simps fourcc_defs)

text \<open>
  C4 fails on the code. The first buffer is built and CREATE_DUMB fails for the
  second one (ring index 1, NV12 source on a plane that lists NV12); the test
  \<^verbatim>\<open>ret < 0\<close> does not see it, \<^verbatim>\<open>CreateFB\<close> records handle 0 and size 0 and fails
  at \<^verbatim>\<open>drmModeAddFB2\<close>. \<^verbatim>\<open>Open\<close> returns that \<^verbatim>\<open>drvFail\<close> and calls
  \<^verbatim>\<open>DestroyFB\<close> for the first buffer, but with \<^verbatim>\<open>sys->size\<close> now 0: the
  \<^verbatim>\<open>munmap\<close> is made with length 0, and the mapping of the first buffer, 2457600
  bytes at address 16777216, is still held when \<^verbatim>\<open>Open\<close> has returned.
\<close>

theorem Open_undetected_CREATE_DUMB_failure:
  "buffer_ok second_create_fails 0
   \<and> create_dumb second_create_fails 1 = None
   \<and> fst (Open nv12_host second_create_fails fourccmatching fresh_device) = CreateFB_failed drvFail
   \<and> filter is_release
        (new_calls fresh_device
           (snd (snd (snd (Open nv12_host second_create_fails fourccmatching fresh_device)))))
       = [DESTROY_DUMB 0, Munmap 16777216 0, RmFB 100, DESTROY_DUMB 1]
   \<and> mappings (snd (snd (snd (Open nv12_host second_create_fails fourccmatching fresh_device))))
       = {#(16777216, 2457600)#}"
proof -
  let ?k = second_create_fails
  define S where "S = calloc_sys\<lparr> sys_vlc_fourcc := VLC_CODEC_NV12, sys_drm_fourcc := DRM_FORMAT_NV12,
                   sys_plane_id := 31, sys_width := 640, sys_height := 480 \<rparr>"
  have len: "0 < length (sys_handle S)" "0 < length (sys_fb S)" "0 < length (sys_map S)"
    "Suc 0 < length (sys_handle S)"
    by (simp_all add: S_def calloc_sys_def MAXHWBUF_def)
  have arrays: "sys_handle S ! 0 = 0" "sys_fb S ! 0 = 0" "sys_map S ! 0 = 0"
    by (simp_all add: S_def calloc_sys_def MAXHWBUF_def)
  have k0: "create_dumb ?k 0 = Some 1" "add_fb2 ?k 0 = Some 100" "map_dumb ?k 0 = Some 0"
    "mmap_ret ?k 0 \<noteq> MAP_FAILED" "mmap_ret ?k 0 = 16777216"
    by (simp_all add: second_create_fails_def working_kernel_def MAP_FAILED_def)
  have k1: "create_dumb ?k (Suc 0) = None" "add_fb2 ?k (Suc 0) = None"
    by (simp_all add: second_create_fails_def working_kernel_def)
  have size: "buffer_size ?k S = 2457600"
    by (simp add: buffer_size_def S_def CreateFB_layout_def vlc_align_def tile_height_def
          second_create_fails_def working_kernel_def fourcc_defs Let_def)
  define s1 where "s1 = (after_create ?k 0 S 1)\<lparr> sys_fb := (sys_fb S)[0 := 100],
                           sys_map := (sys_map S)[0 := mmap_ret ?k 0] \<rparr>"
  define d1 where "d1 = fresh_device\<lparr> dumb_buffers := add_mset 1 (dumb_buffers fresh_device),
               framebuffers := add_mset 100 (framebuffers fresh_device),
               mappings := add_mset (mmap_ret ?k 0, buffer_size ?k S) (mappings fresh_device),
               calls := calls fresh_device @ [CREATE_DUMB (sys_width S) (snd (CreateFB_layout S)) 32,
                                    AddFB2_of (after_create ?k 0 S 1) 1,
                                    MAP_DUMB 1, Mmap (buffer_size ?k S) 0] \<rparr>"
  have c0: "CreateFB ?k 0 S fresh_device = (drvSuccess, s1, d1)"
    unfolding s1_def d1_def by (rule CreateFB_succeeds [OF k0(1-4) len(1-3)])
  have len1: "Suc 0 < length (sys_handle s1)"
    using len(4) by (simp add: s1_def)
  define s2 where "s2 = after_failed_create (Suc 0) s1"
  define d2 where "d2 = d1\<lparr> dumb_buffers := dumb_buffers d1 - {#0#},
               calls := calls d1 @ [CREATE_DUMB (sys_width s1) (snd (CreateFB_layout s1)) 32,
                                    AddFB2_of (after_failed_create (Suc 0) s1) 0,
                                    DESTROY_DUMB 0] \<rparr>"
  have c1: "CreateFB ?k (Suc 0) s1 d1 = (drvFail, s2, d2)"
    unfolding s2_def d2_def by (rule CreateFB_create_and_addfb_fail [OF k1 len1])
  have ob: "Open_buffers ?k 0 S fresh_device = (drvFail, s2, DestroyFB_range 0 (Suc 0) s2 d2)"
    by (simp add: Open_buffers.simps [of _ 0] Open_buffers.simps [of _ "Suc 0"] c0 c1 MAXHWBUF_def)
  have fields: "sys_handle s2 ! 0 = 1" "sys_fb s2 ! 0 = 100" "sys_map s2 ! 0 = 16777216"
    "sys_size s2 = 0"
    using len by (simp_all add: s2_def s1_def k0(5))
  have destroy: "DestroyFB_range 0 (Suc 0) s2 d2
      = d2\<lparr> mappings := mappings d2 - {#(16777216, 0)#},
            framebuffers := framebuffers d2 - {#100#},
            dumb_buffers := dumb_buffers d2 - {#1#},
            calls := calls d2 @ [Munmap 16777216 0, RmFB 100, DESTROY_DUMB 1] \<rparr>"
    by (simp add: DestroyFB_range_def DestroyFB_def device_defs fields)
  have open_eq: "Open nv12_host ?k fourccmatching fresh_device
      = (CreateFB_failed drvFail, Some s2,
         snd (snd (ChromaNegotiation nv12_host fourccmatching
                     (calloc_sys\<lparr> sys_vlc_fourcc := VLC_CODEC_NV12 \<rparr>))),
         DestroyFB_range 0 (Suc 0) s2 d2)"
    by (simp add: Open_negotiated [OF nv12_host_setup] nv12_host_sized S_def [symmetric] ob)
  have rel: "filter is_release (new_calls fresh_device (DestroyFB_range 0 (Suc 0) s2 d2))
      = [DESTROY_DUMB 0, Munmap 16777216 0, RmFB 100, DESTROY_DUMB 1]"
    unfolding destroy
    by (simp add: d2_def d1_def new_calls_def AddFB2_of_def case_prod_beta)
  have maps: "mappings (DestroyFB_range 0 (Suc 0) s2 d2) = {#(16777216, 2457600)#}"
    unfolding destroy
    by (simp add: d2_def d1_def k0(5) size fresh_device_def)
  have ok0: "buffer_ok ?k 0"
    by (simp add: buffer_ok_def k0(1-4))
  have fail1: "create_dumb ?k 1 = None"
    using k1(1) by simp
  from rel maps ok0 fail1 show ?thesis
    by (simp add: open_eq)
qed

text \<open>
  C10. When the three buffers are built and \<^verbatim>\<open>picture_NewFromResource\<close> fails,
  \<^verbatim>\<open>Open\<close> returns \<^verbatim>\<open>VLC_EGENERIC\<close> and makes no release call: the device holds,
  on top of what it held before, the three dumb buffers, the three framebuffer
  objects and the three mappings.
\<close>

theorem Open_picture_failure_keeps_buffers:
  assumes "window_is_kms h" and "calloc_ok h" and "Open_chroma h calloc_sys = Some s"
      and "fst (ChromaNegotiation h tbl s) = Negotiated"
      and "\<forall>b<MAXHWBUF. buffer_ok k b" and "\<not> picture_new_ok h"
  shows "fst (Open h k tbl d) = VLC_EGENERIC
       \<and> dumb_buffers (snd (snd (snd (Open h k tbl d))))
           = dumb_buffers d + mset (map (\<lambda>b. the (create_dumb k b)) [0..<MAXHWBUF])
       \<and> framebuffers (snd (snd (snd (Open h k tbl d))))
           = framebuffers d + mset (map (\<lambda>b. the (add_fb2 k b)) [0..<MAXHWBUF])
       \<and> mappings (snd (snd (snd (Open h k tbl d))))
           = mappings d
             + mset (map (\<lambda>b. (mmap_ret k b, buffer_size k (Open_sized h tbl s))) [0..<MAXHWBUF])
       \<and> filter is_release (new_calls d (snd (snd (snd (Open h k tbl d))))) = []"
proof -
  let ?R = "Open_buffers k 0 (Open_sized h tbl s) d"
  have arr: "sys_arrays (Open_sized h tbl s)"
    by (rule Open_sized_fields(1) [OF assms(3)])
  have b: "built k 0 (Open_sized h tbl s) d (held d)"
    by (rule built_0) (rule arr)
  have all: "\<forall>b. 0 \<le> b \<and> b < MAXHWBUF \<longrightarrow> buffer_ok k b"
    using assms(5) by simp
  note ok = Open_buffers_success [OF _ all b recorded_0, simplified]
  from ok have ret: "fst ?R = drvSuccess" by simp
  from ok have bt: "built k MAXHWBUF (fst (snd ?R)) (snd (snd ?R)) (held d)" by simp
  from ok have rc: "recorded k MAXHWBUF (fst (snd ?R))" by simp
  from ok have sz: "buffer_size k (fst (snd ?R)) = buffer_size k (Open_sized h tbl s)" by simp
  from ok obtain cs where cs: "calls (snd (snd ?R)) = calls d @ cs" "filter is_release cs = []"
    by blast
  from bt have arr3: "sys_arrays (fst (snd ?R))" by (simp add: built_def)
  then have full: "take MAXHWBUF (sys_handle (fst (snd ?R))) = sys_handle (fst (snd ?R))"
    "take MAXHWBUF (sys_fb (fst (snd ?R))) = sys_fb (fst (snd ?R))"
    "take MAXHWBUF (sys_map (fst (snd ?R))) = sys_map (fst (snd ?R))"
    by (simp_all add: sys_arrays_def)
  from rc full have lists:
    "take MAXHWBUF (sys_handle (fst (snd ?R))) = map (\<lambda>b. the (create_dumb k b)) [0..<MAXHWBUF]"
    "take MAXHWBUF (sys_fb (fst (snd ?R))) = map (\<lambda>b. the (add_fb2 k b)) [0..<MAXHWBUF]"
    "take MAXHWBUF (sys_map (fst (snd ?R))) = map (mmap_ret k) [0..<MAXHWBUF]"
    by (simp_all add: recorded_def)
  have open_eq: "Open h k tbl d =
      (VLC_EGENERIC, Some (fst (snd ?R)), snd (snd (ChromaNegotiation h tbl s)), snd (snd ?R))"
    using ret assms(6) by (simp add: Open_negotiated [OF assms(1-4)])
  have d1: "dumb_buffers (snd (snd ?R))
      = dumb_buffers d + mset (map (\<lambda>b. the (create_dumb k b)) [0..<MAXHWBUF])"
    using bt lists(1) by (simp add: built_def held_def)
  have d2: "framebuffers (snd (snd ?R))
      = framebuffers d + mset (map (\<lambda>b. the (add_fb2 k b)) [0..<MAXHWBUF])"
    using bt lists(2) by (simp add: built_def held_def)
  have d3: "mappings (snd (snd ?R))
      = mappings d
        + mset (map (\<lambda>b. (mmap_ret k b, buffer_size k (Open_sized h tbl s))) [0..<MAXHWBUF])"
    using bt lists(3) sz by (simp add: built_def held_def comp_def)
  have d4: "filter is_release (new_calls d (snd (snd ?R))) = []"
    using cs by (simp add: new_calls_def)
  from d1 d2 d3 d4 show ?thesis
    by (simp add: open_eq)
qed

text \<open>
  The theorem on the kernel where every call succeeds: handles 1, 2, 3 and ids 100, 101, 102 stay.
\<close>

theorem Open_picture_failure_keeps_buffers_witness:
  "fst (Open (nv12_host\<lparr> picture_new_ok := False \<rparr>) working_kernel fourccmatching fresh_device)
     = VLC_EGENERIC
   \<and> dumb_buffers (snd (snd (snd (Open (nv12_host\<lparr> picture_new_ok := False \<rparr>) working_kernel
                                     fourccmatching fresh_device))))
       = {#1, 2, 3#}
   \<and> framebuffers (snd (snd (snd (Open (nv12_host\<lparr> picture_new_ok := False \<rparr>) working_kernel
                                     fourccmatching fresh_device))))
       = {#100, 101, 102#}
   \<and> size (mappings (snd (snd (snd (Open (nv12_host\<lparr> picture_new_ok := False \<rparr>) working_kernel
                                     fourccmatching fresh_device))))) = 3
   \<and> filter is_release
       (new_calls fresh_device
          (snd (snd (snd (Open (nv12_host\<lparr> picture_new_ok := False \<rparr>) working_kernel
                            fourccmatching fresh_device))))) = []"
proof -
  let ?h = "nv12_host\<lparr> picture_new_ok := False \<rparr>"
  have s: "window_is_kms ?h" "calloc_ok ?h"
    "Open_chroma ?h calloc_sys = Some (calloc_sys\<lparr> sys_vlc_fourcc := VLC_CODEC_NV12 \<rparr>)"
    "fst (ChromaNegotiation ?h fourccmatching (calloc_sys\<lparr> sys_vlc_fourcc := VLC_CODEC_NV12 \<rparr>))
       = Negotiated"
    by (simp_all add: nv12_host_def negotiation_defs for_c.simps fourcc_defs)
  have h5: "\<forall>b<MAXHWBUF. buffer_ok working_kernel b"
    by (simp add: MAXHWBUF_def working_kernel_buffer_ok)
  have h6: "\<not> picture_new_ok ?h"
    by simp
  from Open_picture_failure_keeps_buffers [OF s h5 h6, of fresh_device] show ?thesis
    by (simp add: MAXHWBUF_def fresh_device_def working_kernel_def numeral_3_eq_3
          add_mset_commute)
qed

section \<open>A forced DRM format that no plane lists\<close>

text \<open>
  With a forced format, the scan of one plane binds \<^verbatim>\<open>sys->plane_id\<close> to that
  plane exactly when nothing is bound yet and the plane lists the format.
\<close>

lemma scan_formats_plane_id:
  "sys_forced_drm_fourcc s \<Longrightarrow>
     sys_plane_id (fst (scan_formats pid fs (s, tbl)))
       = (if sys_plane_id s = 0 \<and> sys_drm_fourcc s \<in> set fs then pid else sys_plane_id s)"
proof (induction fs arbitrary: s tbl)
  case Nil
  show ?case by simp
next
  case (Cons f fs)
  show ?case
  proof (cases "sys_plane_id s = 0 \<and> f = sys_drm_fourcc s")
    case True
    have "sys_plane_id (fst (scan_formats pid fs (s\<lparr> sys_plane_id := pid \<rparr>, CheckFourCCList f pid tbl)))
        = (if sys_plane_id (s\<lparr> sys_plane_id := pid \<rparr>) = 0
              \<and> sys_drm_fourcc (s\<lparr> sys_plane_id := pid \<rparr>) \<in> set fs
           then pid else sys_plane_id (s\<lparr> sys_plane_id := pid \<rparr>))"
      by (rule Cons.IH) (simp add: Cons.prems)
    with True Cons.prems show ?thesis by simp
  next
    case False
    have "sys_plane_id (fst (scan_formats pid fs (s, CheckFourCCList f pid tbl)))
        = (if sys_plane_id s = 0 \<and> sys_drm_fourcc s \<in> set fs then pid else sys_plane_id s)"
      by (rule Cons.IH) (rule Cons.prems)
    with False Cons.prems show ?thesis by auto
  qed
qed

lemma negotiate_forced_unbound:
  assumes "sys_forced_drm_fourcc s" "sys_plane_id s = 0"
  shows "fst (negotiate isyuv tbl s) = ForcedDrmNotAvailable"
  using assms by (simp add: negotiate_def Let_def)

lemma Close_never_built:
  assumes "sys_handle s = replicate MAXHWBUF 0" "sys_fb s = replicate MAXHWBUF 0"
    "sys_map s = replicate MAXHWBUF 0" "sys_size s = 0"
  shows "calls (Close s d) = calls d @ concat (replicate MAXHWBUF [Munmap 0 0, RmFB 0, DESTROY_DUMB 0])"
    and "dumb_buffers (Close s d) \<subseteq># dumb_buffers d"
  using assms
  by (simp_all add: Close_def CustomDestroyPicture_def DestroyFB_range_def DestroyFB_def
        device_defs MAXHWBUF_def numeral_3_eq_3)

text \<open>
  C6. \<^verbatim>\<open>kms-drm-chroma\<close> forces a DRM format, and the scan ends with
  \<^verbatim>\<open>sys->plane_id\<close> still 0. Then \<^verbatim>\<open>ChromaNegotiation\<close> returns false after the
  message that the forced DRM fourcc is not available, and \<^verbatim>\<open>Open\<close> returns
  \<^verbatim>\<open>VLC_EGENERIC\<close>. The only calls \<^verbatim>\<open>Open\<close> makes on the device are those
  of \<^verbatim>\<open>Close\<close> on the three buffers that were never built; none is CREATE_DUMB,
  and the device holds no dumb buffer that it did not hold before.
\<close>

theorem forced_drm_fourcc_without_plane:
  assumes "window_is_kms h" and "calloc_ok h" and "Open_chroma h calloc_sys = Some s"
      and "sys_forced_drm_fourcc s"
      and "ChromaNegotiation_scan h tbl s = (None, s1, tbl1)" and "sys_plane_id s1 = 0"
  shows "fst (ChromaNegotiation h tbl s) = ForcedDrmNotAvailable
       \<and> fst (Open h k tbl d) = VLC_EGENERIC
       \<and> new_calls d (snd (snd (snd (Open h k tbl d))))
           = concat (replicate MAXHWBUF [Munmap 0 0, RmFB 0, DESTROY_DUMB 0])
       \<and> filter is_allocation (new_calls d (snd (snd (snd (Open h k tbl d))))) = []
       \<and> dumb_buffers (snd (snd (snd (Open h k tbl d)))) \<subseteq># dumb_buffers d"
proof -
  from ChromaNegotiation_scan_same [of s h tbl] assms(5) have same1: "same_buffers s s1"
    by simp
  with assms(4) have forced1: "sys_forced_drm_fourcc s1"
    by (simp add: same_buffers_def)
  have exit: "fst (negotiate (vlc_fourcc_IsYUV h) tbl1 s1) = ForcedDrmNotAvailable"
    by (rule negotiate_forced_unbound [OF forced1 assms(6)])
  have neg: "fst (ChromaNegotiation h tbl s) = ForcedDrmNotAvailable"
    using assms(5) exit by (simp add: ChromaNegotiation_def case_prod_beta)
  let ?s2 = "fst (snd (ChromaNegotiation h tbl s))"
  note a = Open_chroma_same [OF assms(3)]
  note b = ChromaNegotiation_same [of s h tbl, unfolded same_buffers_def]
  from a b have zero: "sys_handle ?s2 = replicate MAXHWBUF 0" "sys_fb ?s2 = replicate MAXHWBUF 0"
    "sys_map ?s2 = replicate MAXHWBUF 0" "sys_size ?s2 = 0"
    by (simp_all add: calloc_sys_def)
  have open_eq: "Open h k tbl d
      = (VLC_EGENERIC, Some ?s2, snd (snd (ChromaNegotiation h tbl s)), Close ?s2 d)"
    using assms(1-3) neg by (simp add: Open_def case_prod_beta)
  note cl = Close_never_built [OF zero, of d]
  have c1: "new_calls d (Close ?s2 d)
      = concat (replicate MAXHWBUF [Munmap 0 0, RmFB 0, DESTROY_DUMB 0])"
    using cl(1) by (simp add: new_calls_def)
  have c2: "filter is_allocation (concat (replicate MAXHWBUF [Munmap 0 0, RmFB 0, DESTROY_DUMB 0])) = []"
    by (simp add: MAXHWBUF_def numeral_3_eq_3)
  from neg c1 c2 cl(2) show ?thesis
    by (simp add: open_eq)
qed

text \<open>
  The theorem for NV12 forced on a device whose plane lists XRGB8888 only.
\<close>

theorem forced_drm_fourcc_without_plane_witness:
  "fst (ChromaNegotiation forced_nv12_host fourccmatching
          (calloc_sys\<lparr> sys_vlc_fourcc := VLC_CODEC_I420, sys_forced_drm_fourcc := True,
                       sys_drm_fourcc := DRM_FORMAT_NV12 \<rparr>)) = ForcedDrmNotAvailable
   \<and> fst (Open forced_nv12_host working_kernel fourccmatching fresh_device) = VLC_EGENERIC
   \<and> new_calls fresh_device
        (snd (snd (snd (Open forced_nv12_host working_kernel fourccmatching fresh_device))))
       = [Munmap 0 0, RmFB 0, DESTROY_DUMB 0, Munmap 0 0, RmFB 0, DESTROY_DUMB 0,
          Munmap 0 0, RmFB 0, DESTROY_DUMB 0]
   \<and> filter is_allocation
        (new_calls fresh_device
           (snd (snd (snd (Open forced_nv12_host working_kernel fourccmatching fresh_device)))))
       = []
   \<and> dumb_buffers (snd (snd (snd (Open forced_nv12_host working_kernel fourccmatching
                                     fresh_device)))) = {#}"
proof -
  let ?s = "calloc_sys\<lparr> sys_vlc_fourcc := VLC_CODEC_I420, sys_forced_drm_fourcc := True,
                        sys_drm_fourcc := DRM_FORMAT_NV12 \<rparr>"
  have h1: "window_is_kms forced_nv12_host" and h2: "calloc_ok forced_nv12_host"
    by (simp_all add: forced_nv12_host_def one_plane_host_def)
  have h3: "Open_chroma forced_nv12_host calloc_sys = Some ?s"
    by (simp add: forced_nv12_host_def one_plane_host_def Open_chroma_def VLC_FOURCC_of_def
          chroma_at_def fourcc_defs)
  have h4: "sys_forced_drm_fourcc ?s"
    by simp
  have h5: "ChromaNegotiation_scan forced_nv12_host fourccmatching ?s
      = (None, ?s, fourccmatching[0 := (fourccmatching ! 0)\<lparr> present := True, plane_id := 31 \<rparr>])"
    by (simp add: forced_nv12_host_def negotiation_defs for_c.simps fourcc_defs)
  have h6: "sys_plane_id ?s = 0"
    by (simp add: calloc_sys_def)
  from forced_drm_fourcc_without_plane [OF h1 h2 h3 h4 h5 h6, of working_kernel fresh_device]
  show ?thesis
    by (simp add: MAXHWBUF_def numeral_3_eq_3 fresh_device_def)
qed

section \<open>Display\<close>

text \<open>
  C5. When \<^verbatim>\<open>drmModeSetPlane\<close> does not return 0, \<^verbatim>\<open>sys\<close> is left as it was:
  \<^verbatim>\<open>front_buf\<close> is not advanced and the planes of the picture point where they
  pointed, so \<^verbatim>\<open>Prepare\<close> writes to the same buffer as before. This holds also
  when the assertion stops the process (error \<^verbatim>\<open>EINVAL\<close>, assertions compiled in);
  otherwise \<^verbatim>\<open>Display\<close> returns.
\<close>

theorem Display_commit_failure_keeps_state:
  assumes "ret \<noteq> 0"
  shows "fst (snd (Display ndebug ret s d)) = s
       \<and> sys_front_buf (fst (snd (Display ndebug ret s d))) = sys_front_buf s
       \<and> Prepare_target (fst (snd (Display ndebug ret s d))) = Prepare_target s
       \<and> fst (Display ndebug ret s d)
           = (if \<not> ndebug \<and> ret = - EINVAL then AssertionFailed else Returned)"
  using assms by (simp add: Display_def Let_def)

text \<open>
  The theorem for a commit that fails with \<open>-1\<close>.
\<close>

theorem Display_commit_failure_keeps_state_witness:
  "fst (snd (Display False (- 1) (calloc_sys\<lparr> sys_picture := Some (Open_picture calloc_sys) \<rparr>)
               fresh_device))
     = calloc_sys\<lparr> sys_picture := Some (Open_picture calloc_sys) \<rparr>
   \<and> sys_front_buf (fst (snd (Display False (- 1)
         (calloc_sys\<lparr> sys_picture := Some (Open_picture calloc_sys) \<rparr>) fresh_device))) = 0
   \<and> Prepare_target (fst (snd (Display False (- 1)
         (calloc_sys\<lparr> sys_picture := Some (Open_picture calloc_sys) \<rparr>) fresh_device)))
       = Prepare_target (calloc_sys\<lparr> sys_picture := Some (Open_picture calloc_sys) \<rparr>)
   \<and> fst (Display False (- 1) (calloc_sys\<lparr> sys_picture := Some (Open_picture calloc_sys) \<rparr>)
            fresh_device) = Returned"
proof -
  have h: "(- 1 :: int) \<noteq> 0" by simp
  from Display_commit_failure_keeps_state [OF h, of False
      "calloc_sys\<lparr> sys_picture := Some (Open_picture calloc_sys) \<rparr>" fresh_device]
  show ?thesis
    by (simp add: EINVAL_def calloc_sys_def)
qed

lemma front_buf_cases:
  fixes x :: u32
  assumes "unat x < MAXHWBUF"
  shows "x = 0 \<or> x = 1 \<or> x = 2"
proof -
  from assms have "unat x = 0 \<or> unat x = 1 \<or> unat x = 2"
    by (auto simp: MAXHWBUF_def)
  moreover have "x = of_nat (unat x)" by simp
  ultimately have "x = of_nat 0 \<or> x = of_nat 1 \<or> x = of_nat 2"
    by metis
  then show ?thesis by simp
qed

lemma front_buf_next:
  fixes x :: u32
  assumes "unat x < MAXHWBUF"
  shows "(x + 1) mod of_nat MAXHWBUF = (if x = 0 then 1 else if x = 1 then 2 else 0)"
proof -
  from front_buf_cases [OF assms] consider "x = 0" | "x = 1" | "x = 2" by blast
  then show ?thesis
  proof cases
    case 1
    then show ?thesis by (simp add: MAXHWBUF_def word_mod_def)
  next
    case 2
    then show ?thesis by (simp add: MAXHWBUF_def word_mod_def)
  next
    case 3
    then show ?thesis by (simp add: MAXHWBUF_def word_mod_def)
  qed
qed

lemma front_buf_advance:
  fixes x :: u32
  assumes "unat x < MAXHWBUF"
  shows "unat ((x + 1) mod of_nat MAXHWBUF) = (unat x + 1) mod MAXHWBUF"
    and "(x + 1) mod of_nat MAXHWBUF \<noteq> x"
proof -
  note n = front_buf_next [OF assms]
  from front_buf_cases [OF assms]
  show "unat ((x + 1) mod of_nat MAXHWBUF) = (unat x + 1) mod MAXHWBUF"
    unfolding n by (auto simp: MAXHWBUF_def)
  from front_buf_cases [OF assms]
  show "(x + 1) mod of_nat MAXHWBUF \<noteq> x"
    unfolding n by auto
qed

lemma CreateFB_front_buf:
  "sys_front_buf (fst (snd (CreateFB k buf s d))) = sys_front_buf s"
proof (cases "create_dumb k buf")
  case c: None
  show ?thesis
  proof (cases "add_fb2 k buf")
    case None
    with c show ?thesis
      by (simp add: CreateFB_def device_defs case_prod_beta Let_def)
  next
    case f: (Some f)
    show ?thesis
    proof (cases "map_dumb k buf")
      case None
      with c f show ?thesis
        by (simp add: CreateFB_def device_defs case_prod_beta Let_def)
    next
      case (Some off)
      with c f show ?thesis
        by (simp add: CreateFB_def device_defs case_prod_beta Let_def)
    qed
  qed
next
  case c: (Some hnd)
  show ?thesis
  proof (cases "add_fb2 k buf")
    case None
    with c show ?thesis
      by (simp add: CreateFB_def device_defs case_prod_beta Let_def)
  next
    case f: (Some f)
    show ?thesis
    proof (cases "map_dumb k buf")
      case None
      with c f show ?thesis
        by (simp add: CreateFB_def device_defs case_prod_beta Let_def)
    next
      case (Some off)
      with c f show ?thesis
        by (simp add: CreateFB_def device_defs case_prod_beta Let_def)
    qed
  qed
qed

lemma Open_buffers_front_buf:
  "sys_front_buf (fst (snd (Open_buffers k c s d))) = sys_front_buf s"
proof (induction k c s d rule: Open_buffers.induct)
  case (1 k c s d)
  show ?case
  proof (cases "c < MAXHWBUF")
    case False
    then show ?thesis by (subst Open_buffers.simps) simp
  next
    case True
    show ?thesis
    proof (cases "fst (CreateFB k c s d) \<noteq> drvSuccess")
      case f: True
      with True show ?thesis
        by (subst Open_buffers.simps) (simp add: case_prod_beta CreateFB_front_buf)
    next
      case ok: False
      from "1.IH" [OF True prod.collapse prod.collapse ok]
      have "sys_front_buf (fst (snd (Open_buffers k (Suc c) (fst (snd (CreateFB k c s d)))
                 (snd (snd (CreateFB k c s d))))))
            = sys_front_buf (fst (snd (CreateFB k c s d)))" .
      with True ok show ?thesis
        by (subst Open_buffers.simps) (simp add: case_prod_beta CreateFB_front_buf)
    qed
  qed
qed

lemma Open_chroma_front_buf:
  "Open_chroma h s = Some s' \<Longrightarrow> sys_front_buf s' = sys_front_buf s"
  by (auto simp: Open_chroma_def Let_def split: option.splits if_splits)

text \<open>
  The states \<^verbatim>\<open>Display\<close> is called in: a successful \<^verbatim>\<open>Open\<close> leaves
  \<^verbatim>\<open>front_buf\<close> at 0 and the picture allocated, and \<^verbatim>\<open>Display\<close> keeps
  \<^verbatim>\<open>front_buf\<close> below \<^verbatim>\<open>MAXHWBUF\<close> and the picture allocated.
\<close>

lemma Open_success_session:
  assumes "Open h k tbl d = (VLC_SUCCESS, Some s', tbl', d')"
  shows "sys_front_buf s' = 0 \<and> sys_picture s' \<noteq> None"
proof -
  from assms have kms: "window_is_kms h" and ca: "calloc_ok h"
    by (auto simp: Open_def split: if_splits)
  from assms kms ca obtain s where oc: "Open_chroma h calloc_sys = Some s"
    by (auto simp: Open_def split: option.splits)
  from assms kms ca oc have neg: "fst (ChromaNegotiation h tbl s) = Negotiated"
    by (auto simp: Open_def case_prod_beta split: if_splits)
  note eq = Open_negotiated [OF kms ca oc neg, of k d]
  from assms eq have s': "s' = (fst (snd (Open_buffers k 0 (Open_sized h tbl s) d)))
      \<lparr> sys_picture := Some (Open_picture (fst (snd (Open_buffers k 0 (Open_sized h tbl s) d)))) \<rparr>"
    by (auto split: if_splits)
  have "sys_front_buf (Open_sized h tbl s) = sys_front_buf s"
    using ChromaNegotiation_same [of s h tbl] by (simp add: Open_sized_def same_buffers_def)
  also have "\<dots> = 0"
    using Open_chroma_front_buf [OF oc] by (simp add: calloc_sys_def)
  finally show ?thesis
    by (simp add: s' Open_buffers_front_buf)
qed

lemma Display_keeps_session:
  assumes "unat (sys_front_buf s) < MAXHWBUF" "sys_picture s \<noteq> None"
  shows "unat (sys_front_buf (fst (snd (Display ndebug ret s d)))) < MAXHWBUF
       \<and> sys_picture (fst (snd (Display ndebug ret s d))) \<noteq> None"
proof (cases "ret = 0")
  case False
  with assms show ?thesis by (simp add: Display_def Let_def)
next
  case True
  from assms(2) obtain p where p: "sys_picture s = Some p" by auto
  from front_buf_advance(1) [OF assms(1)]
  have "unat ((sys_front_buf s + 1) mod of_nat MAXHWBUF) < MAXHWBUF"
    by (simp add: MAXHWBUF_def)
  with True p show ?thesis by (simp add: Display_def Let_def)
qed


text \<open>
  C8. In a session (\<^verbatim>\<open>front_buf\<close> below \<^verbatim>\<open>MAXHWBUF\<close>, the picture allocated), when
  \<^verbatim>\<open>drmModeSetPlane\<close> returns 0: the one call \<^verbatim>\<open>Display\<close> made on the device is
  the commit of the framebuffer of the buffer \<^verbatim>\<open>front_buf\<close> designated on entry,
  on the negotiated plane, and the device holds what it held. \<^verbatim>\<open>Display\<close> returns
  with \<^verbatim>\<open>front_buf\<close> advanced to \<open>(front_buf + 1) mod MAXHWBUF\<close>, and for each of
  the \<^verbatim>\<open>PICTURE_PLANE_MAX\<close> planes \<open>i\<close> the pixel pointer is the mapping of the new
  front buffer plus \<^verbatim>\<open>sys->offsets[i]\<close>. The new index differs from the one whose
  framebuffer was committed, so \<^verbatim>\<open>Prepare\<close> writes into a buffer other than the
  one now scanned out; the framebuffer ids, the mappings, the offsets and the plane
  are unchanged.
\<close>

theorem Display_commit_success_advances:
  assumes "unat (sys_front_buf s) < MAXHWBUF" and "sys_picture s = Some p"
  shows "fst (Display ndebug 0 s d) = Returned
       \<and> unat (sys_front_buf (fst (snd (Display ndebug 0 s d))))
           = (unat (sys_front_buf s) + 1) mod MAXHWBUF
       \<and> Prepare_target (fst (snd (Display ndebug 0 s d)))
           = Some (map (\<lambda>i. sys_map s ! ((unat (sys_front_buf s) + 1) mod MAXHWBUF)
                               + ucast (sys_offsets s ! i))
                       [0..<PICTURE_PLANE_MAX])
       \<and> sys_front_buf (fst (snd (Display ndebug 0 s d))) \<noteq> sys_front_buf s
       \<and> sys_map (fst (snd (Display ndebug 0 s d))) = sys_map s
       \<and> sys_offsets (fst (snd (Display ndebug 0 s d))) = sys_offsets s
       \<and> new_calls d (snd (snd (Display ndebug 0 s d)))
           = [SetPlane (sys_plane_id s) (sys_fb s ! unat (sys_front_buf s))]
       \<and> held (snd (snd (Display ndebug 0 s d))) = held d
       \<and> sys_fb (fst (snd (Display ndebug 0 s d))) = sys_fb s
       \<and> sys_plane_id (fst (snd (Display ndebug 0 s d))) = sys_plane_id s"
  using assms front_buf_advance [OF assms(1)]
  by (simp add: Display_def Let_def Prepare_target_def comp_def logged_def new_calls_def)

text \<open>
  The theorem for a session on plane 31 with framebuffers 100, 101, 102 and
  \<^verbatim>\<open>front_buf\<close> = 2: framebuffer 102 is committed and \<^verbatim>\<open>front_buf\<close> wraps to 0.
\<close>

theorem Display_commit_success_advances_witness:
  "fst (Display False 0
         (calloc_sys\<lparr> sys_picture := Some (Open_picture calloc_sys), sys_front_buf := 2,
                      sys_fb := [100, 101, 102], sys_plane_id := 31 \<rparr>)
         fresh_device) = Returned
   \<and> unat (sys_front_buf (fst (snd (Display False 0
         (calloc_sys\<lparr> sys_picture := Some (Open_picture calloc_sys), sys_front_buf := 2,
                      sys_fb := [100, 101, 102], sys_plane_id := 31 \<rparr>)
         fresh_device)))) = 0
   \<and> sys_front_buf (fst (snd (Display False 0
         (calloc_sys\<lparr> sys_picture := Some (Open_picture calloc_sys), sys_front_buf := 2,
                      sys_fb := [100, 101, 102], sys_plane_id := 31 \<rparr>)
         fresh_device))) \<noteq> 2
   \<and> new_calls fresh_device (snd (snd (Display False 0
         (calloc_sys\<lparr> sys_picture := Some (Open_picture calloc_sys), sys_front_buf := 2,
                      sys_fb := [100, 101, 102], sys_plane_id := 31 \<rparr>)
         fresh_device))) = [SetPlane 31 102]"
proof -
  let ?s = "calloc_sys\<lparr> sys_picture := Some (Open_picture calloc_sys), sys_front_buf := 2,
                        sys_fb := [100, 101, 102], sys_plane_id := 31 \<rparr>"
  have h1: "unat (sys_front_buf ?s) < MAXHWBUF"
    by (simp add: MAXHWBUF_def)
  have h2: "sys_picture ?s = Some (Open_picture calloc_sys)"
    by simp
  from Display_commit_success_advances [OF h1 h2, of False fresh_device] show ?thesis
    by (simp add: MAXHWBUF_def)
qed

end
